theory Spec2Isabelle
  imports Complex_Main
begin

section \<open>Errors and the numpy arrays the toolbox computes with\<close>

text \<open>
  The toolbox is Python over numpy. Floating-point numbers are idealised as the reals:
  rounding, \<open>nan\<close> and \<open>inf\<close> are outside this development (in HOL \<open>x / 0 = 0\<close>, where
  numpy yields \<open>nan\<close> or \<open>inf\<close> with a warning and no exception). Every exception of Python
  or numpy that the modelled code can raise is a value of \<open>error\<close>.
\<close>

datatype error = ValueError | IndexError | LinAlgError

definition ebind :: "error + 'a \<Rightarrow> ('a \<Rightarrow> error + 'b) \<Rightarrow> error + 'b" where
  "ebind m f = (case m of Inl e \<Rightarrow> Inl e | Inr x \<Rightarrow> f x)"

text \<open>
  A two-dimensional array carries its shape, as numpy's does: a \<open>(0, 3)\<close> array and a
  \<open>(0, 0)\<close> array differ although neither has an entry. \<open>elems\<close> is the list of rows.
\<close>

datatype ndarray = NDArray (nrows: nat) (ncols: nat) (elems: "real list list")

definition wf_array :: "ndarray \<Rightarrow> bool" where
  "wf_array A \<longleftrightarrow> length (elems A) = nrows A \<and> list_all (\<lambda>r. length r = ncols A) (elems A)"

definition mk :: "nat \<Rightarrow> nat \<Rightarrow> (nat \<Rightarrow> nat \<Rightarrow> real) \<Rightarrow> ndarray" where
  "mk r c f = NDArray r c (map (\<lambda>i. map (f i) [0..<c]) [0..<r])"

definition entry :: "ndarray \<Rightarrow> nat \<Rightarrow> nat \<Rightarrow> real" where
  "entry A i j = elems A ! i ! j"

text \<open>
  \<open>A.T\<close>, \<open>A @ B\<close> (a shape mismatch raises \<open>ValueError\<close>), and the division or the
  multiplication of every entry by a scalar.
\<close>

definition np_T :: "ndarray \<Rightarrow> ndarray" where
  "np_T A = mk (ncols A) (nrows A) (\<lambda>i j. entry A j i)"

definition dot :: "ndarray \<Rightarrow> ndarray \<Rightarrow> ndarray" where
  "dot A B = mk (nrows A) (ncols B)
     (\<lambda>i j. sum_list (map (\<lambda>k. entry A i k * entry B k j) [0..<ncols A]))"

definition matmul :: "ndarray \<Rightarrow> ndarray \<Rightarrow> error + ndarray" where
  "matmul A B = (if ncols A = nrows B then Inr (dot A B) else Inl ValueError)"

definition map_entries :: "(real \<Rightarrow> real) \<Rightarrow> ndarray \<Rightarrow> ndarray" where
  "map_entries g A = mk (nrows A) (ncols A) (\<lambda>i j. g (entry A i j))"

definition div_scalar :: "ndarray \<Rightarrow> real \<Rightarrow> ndarray" where
  "div_scalar A s = map_entries (\<lambda>x. x / s) A"

definition mul_scalar :: "ndarray \<Rightarrow> real \<Rightarrow> ndarray" where
  "mul_scalar A s = map_entries (\<lambda>x. x * s) A"

definition sub_scalar :: "ndarray \<Rightarrow> real \<Rightarrow> ndarray" where
  "sub_scalar A s = map_entries (\<lambda>x. x - s) A"

text \<open>
  An entrywise operation on two arrays follows numpy's broadcasting: two extents are
  compatible when they are equal or one of them is 1, and the array of extent 1 is
  repeated along that axis; incompatible shapes raise \<open>ValueError\<close>.
\<close>

definition broadcast_dim :: "nat \<Rightarrow> nat \<Rightarrow> nat option" where
  "broadcast_dim a b =
     (if a = b then Some a else if a = 1 then Some b else if b = 1 then Some a else None)"

definition bidx :: "nat \<Rightarrow> nat \<Rightarrow> nat" where
  "bidx extent i = (if extent = 1 then 0 else i)"

definition broadcast_op :: "(real \<Rightarrow> real \<Rightarrow> real) \<Rightarrow> ndarray \<Rightarrow> ndarray \<Rightarrow> error + ndarray" where
  "broadcast_op f A B =
     (case (broadcast_dim (nrows A) (nrows B), broadcast_dim (ncols A) (ncols B)) of
        (Some r, Some c) \<Rightarrow>
          Inr (mk r c (\<lambda>i j. f (entry A (bidx (nrows A) i) (bidx (ncols A) j))
                              (entry B (bidx (nrows B) i) (bidx (ncols B) j))))
      | _ \<Rightarrow> Inl ValueError)"

definition np_add :: "ndarray \<Rightarrow> ndarray \<Rightarrow> error + ndarray" where
  "np_add = broadcast_op (+)"

definition np_sub :: "ndarray \<Rightarrow> ndarray \<Rightarrow> error + ndarray" where
  "np_sub = broadcast_op (-)"

definition np_div :: "ndarray \<Rightarrow> ndarray \<Rightarrow> error + ndarray" where
  "np_div = broadcast_op (/)"

text \<open>A one-dimensional array is the list of its entries.\<close>

type_synonym ndarray1 = "real list"

text \<open>
  On one-dimensional arrays \<open>v.T\<close> is \<open>v\<close> itself and \<open>u @ v\<close> is the inner product, a
  scalar; arrays of different lengths raise \<open>ValueError\<close>.
\<close>

definition np_T1 :: "ndarray1 \<Rightarrow> ndarray1" where
  "np_T1 v = v"

definition matmul1 :: "ndarray1 \<Rightarrow> ndarray1 \<Rightarrow> error + real" where
  "matmul1 u v =
     (if length u = length v then Inr (sum_list (map (\<lambda>k. u ! k * v ! k) [0..<length u]))
      else Inl ValueError)"

text \<open>
  \<open>np.mean(A, axis=1)\<close> is the one-dimensional array of the row means; with
  \<open>keepdims=True\<close> it is the column of shape \<open>(rows, 1)\<close>. \<open>np.var(A, axis=1)\<close> is the
  mean squared deviation of each row from its mean; \<open>np.expand_dims(v, axis=1)\<close> turns a
  one-dimensional array into a column.
\<close>

definition mean :: "real list \<Rightarrow> real" where
  "mean xs = sum_list xs / real (length xs)"

definition np_mean_axis1 :: "ndarray \<Rightarrow> ndarray1" where
  "np_mean_axis1 A = map mean (elems A)"

definition expand_dims :: "ndarray1 \<Rightarrow> ndarray" where
  "expand_dims v = mk (length v) 1 (\<lambda>i j. v ! i)"

definition np_mean_axis1_keepdims :: "ndarray \<Rightarrow> ndarray" where
  "np_mean_axis1_keepdims A = expand_dims (np_mean_axis1 A)"

definition np_var_axis1 :: "ndarray \<Rightarrow> ndarray1" where
  "np_var_axis1 A = map (\<lambda>r. mean (map (\<lambda>x. (x - mean r)\<^sup>2) r)) (elems A)"

text \<open>\<open>np.linalg.norm(A, "fro")\<close>: the square root of the sum of the squared entries.\<close>

definition fro_norm :: "ndarray \<Rightarrow> real" where
  "fro_norm A = sqrt (sum_list (map (\<lambda>x. x\<^sup>2) (concat (elems A))))"

text \<open>
  \<open>A[:, 0:k]\<close>: the leading columns up to \<open>k\<close>. \<open>k = None\<close> keeps every column, a
  negative \<open>k\<close> counts from the end, and a bound beyond the array is clipped.
\<close>

definition slice_cols :: "ndarray \<Rightarrow> int option \<Rightarrow> ndarray" where
  "slice_cols A k =
     (let c = int (ncols A);
          stop = (case k of None \<Rightarrow> c
                  | Some k \<Rightarrow> if k < 0 then max 0 (c + k) else min k c)
      in mk (nrows A) (nat stop) (\<lambda>i j. entry A i j))"

text \<open>\<open>xs[0]\<close> on a Python list.\<close>

definition index0 :: "'a list \<Rightarrow> error + 'a" where
  "index0 xs = (case xs of [] \<Rightarrow> Inl IndexError | x # _ \<Rightarrow> Inr x)"

text \<open>\<open>a[i]\<close> on a one-dimensional array: a negative index counts from the end.\<close>

definition getitem :: "ndarray1 \<Rightarrow> int \<Rightarrow> error + real" where
  "getitem a i =
     (let n = int (length a); j = (if i < 0 then i + n else i)
      in if 0 \<le> j \<and> j < n then Inr (a ! nat j) else Inl IndexError)"

text \<open>\<open>np.zeros(n)\<close>: a negative length is refused.\<close>

definition np_zeros :: "int \<Rightarrow> error + ndarray1" where
  "np_zeros n = (if n < 0 then Inl ValueError else Inr (replicate (nat n) 0))"

text \<open>
  \<open>np.linspace(0, 1, num, endpoint=False)\<close>: numpy computes the step \<open>1 / num\<close> and
  returns \<open>i * step\<close> for \<open>i = 0, ..., num - 1\<close>; a negative \<open>num\<close> is refused.
\<close>

definition linspace_0_1 :: "int \<Rightarrow> error + ndarray1" where
  "linspace_0_1 num =
     (if num < 0 then Inl ValueError
      else Inr (map (\<lambda>i. real i * (1 / real_of_int num)) [0..<nat num]))"

text \<open>
  \<open>int(a / b)\<close> for Python integers \<open>a\<close> and \<open>b > 0\<close>: the true quotient, truncated towards
  zero. (Python rounds the quotient to a double first; for \<open>|a| < 2^53\<close> that does not
  change the integer part.)
\<close>

definition int_truediv :: "int \<Rightarrow> int \<Rightarrow> int" where
  "int_truediv a b = (if 0 \<le> a then a div b else - ((- a) div b))"

section \<open>The drift-weight sequence\<close>

text \<open>\<open>LCMVDataRetriever.weight_function\<close> of \<open>dasftoolbox/data_retrievers/lcmv_data_retriever.py\<close>.\<close>

definition weight_function :: "int \<Rightarrow> error + ndarray1" where
  "weight_function nb_windows =
     (if nb_windows < 10 then np_zeros nb_windows
      else
        ebind (linspace_0_1 (int_truediv (5 * nb_windows) 10)) (\<lambda>segment_1.
        ebind (linspace_0_1 (int_truediv (3 * nb_windows) 10)) (\<lambda>segment_2.
        ebind (linspace_0_1 (int_truediv (2 * nb_windows) 10)) (\<lambda>segment_3.
        Inr (segment_1 @ segment_2 @ segment_3)))))"

text \<open>
  The spec's words for one segment: a linear ramp from 0 to 1 of \<open>k\<close> values with the
  endpoint 1 excluded, that is \<open>0, 1/k, ..., (k-1)/k\<close>.
\<close>

definition ramp :: "nat \<Rightarrow> real list" where
  "ramp k = map (\<lambda>i. real i / real k) [0..<k]"

text \<open>The positions \<open>i\<close> at which a sequence drops: \<open>ws[i+1] < ws[i]\<close>.\<close>

definition drops :: "real list \<Rightarrow> nat list" where
  "drops ws = filter (\<lambda>i. ws ! Suc i < ws ! i) [0..<length ws - 1]"

section \<open>Statistics utilities (\<open>dasftoolbox/utils.py\<close>)\<close>

definition make_symmetric :: "ndarray \<Rightarrow> error + ndarray" where
  "make_symmetric matrix =
     ebind (np_add matrix (np_T matrix)) (\<lambda>s. Inr (div_scalar s 2))"

text \<open>The optional \<open>normalizer\<close> defaults to \<open>np.size(data, 1)\<close>, the number of columns.\<close>

definition default_normalizer :: "ndarray \<Rightarrow> int option \<Rightarrow> real" where
  "default_normalizer data normalizer =
     (case normalizer of None \<Rightarrow> real (ncols data) | Some n \<Rightarrow> real_of_int n)"

definition autocorrelation_matrix :: "ndarray \<Rightarrow> int option \<Rightarrow> error + ndarray" where
  "autocorrelation_matrix data normalizer =
     (let normalizer = default_normalizer data normalizer in
      ebind (matmul data (np_T data)) (\<lambda>p.
      make_symmetric (div_scalar p normalizer)))"

definition cross_correlation_matrix :: "ndarray \<Rightarrow> ndarray \<Rightarrow> int option \<Rightarrow> error + ndarray" where
  "cross_correlation_matrix data1 data2 normalizer =
     (let normalizer = default_normalizer data1 normalizer in
      ebind (matmul data1 (np_T data2)) (\<lambda>p.
      Inr (div_scalar p normalizer)))"

text \<open>
  In \<open>covariance_matrix\<close> and \<open>cross_covariance_matrix\<close> the source subtracts
  \<open>np.mean(data, axis=1) @ np.mean(data, axis=1).T\<close>. The means are taken without
  \<open>keepdims\<close>, so they are one-dimensional arrays: \<open>.T\<close> leaves them as they are and
  \<open>@\<close> is their inner product, a scalar, which numpy subtracts from every entry.
\<close>

definition covariance_matrix :: "ndarray \<Rightarrow> int option \<Rightarrow> error + ndarray" where
  "covariance_matrix data normalizer =
     (let normalizer = default_normalizer data normalizer in
      ebind (matmul data (np_T data)) (\<lambda>p.
      ebind (matmul1 (np_mean_axis1 data) (np_T1 (np_mean_axis1 data))) (\<lambda>m.
      make_symmetric (sub_scalar (div_scalar p normalizer) m))))"

definition cross_covariance_matrix :: "ndarray \<Rightarrow> ndarray \<Rightarrow> int option \<Rightarrow> error + ndarray" where
  "cross_covariance_matrix data1 data2 normalizer =
     (let normalizer = default_normalizer data1 normalizer in
      ebind (matmul data1 (np_T data2)) (\<lambda>p.
      ebind (matmul1 (np_mean_axis1 data1) (np_T1 (np_mean_axis1 data2))) (\<lambda>m.
      Inr (sub_scalar (div_scalar p normalizer) m))))"

definition normalize :: "ndarray \<Rightarrow> real \<Rightarrow> error + ndarray" where
  "normalize data scale =
     (let data_mean = np_mean_axis1_keepdims data;
          data_var = map_entries sqrt (expand_dims (np_var_axis1 data)) in
      ebind (np_sub data data_mean) (\<lambda>data.
      np_div (map_entries (\<lambda>x. scale * x) data) data_var))"

section \<open>Problem inputs and the two closed-form problems\<close>

text \<open>
  \<open>ProblemInputs\<close> is declared in \<open>dasftoolbox/problem_settings.py\<close>; the code here reads
  its three sequences by position.
\<close>

record ProblemInputs =
  fused_signals :: "ndarray list"
  fused_constants :: "ndarray list"
  global_parameters :: "ndarray list"

text \<open>
  The state of an \<open>OptimizationProblem\<close>: the configured filter count
  \<open>self.nb_filters\<close> (the field \<open>p_nb_filters\<close>) and the solution that \<open>solve\<close> stores in
  \<open>self._X_star\<close> (the field \<open>p_X_star\<close>) when \<open>save_solution\<close> is set.
\<close>

record OptimizationProblem =
  p_nb_filters :: int
  p_X_star :: "ndarray option"

text \<open>
  \<open>np.linalg.inv\<close> belongs to numpy, not to the toolbox: the solvers take it as the
  parameter \<open>linalg_inv\<close>. It raises \<open>LinAlgError\<close> on a singular matrix.
  \<open>is_inverse A A'\<close> says that \<open>A'\<close> is the inverse of the square matrix \<open>A\<close>.
\<close>

definition eye :: "nat \<Rightarrow> ndarray" where
  "eye n = mk n n (\<lambda>i j. if i = j then 1 else 0)"

definition is_inverse :: "ndarray \<Rightarrow> ndarray \<Rightarrow> bool" where
  "is_inverse A A' \<longleftrightarrow>
     wf_array A' \<and> nrows A = ncols A \<and> nrows A' = nrows A \<and> ncols A' = ncols A \<and>
     dot A A' = eye (nrows A) \<and> dot A' A = eye (nrows A)"

text \<open>
  \<open>LCMVProblem.solve\<close>. The arguments \<open>convergence_parameters\<close> and \<open>initial_estimate\<close>
  are never read. Python evaluates
  \<open>inv(Ryy) @ B @ inv(B.T @ inv(Ryy) @ B) @ H.T\<close> from the left, each operand before the
  product that uses it. The result is the estimator and the problem object after the call.
\<close>

definition LCMV_solve ::
  "(ndarray \<Rightarrow> error + ndarray) \<Rightarrow> OptimizationProblem \<Rightarrow> ProblemInputs \<Rightarrow> bool
     \<Rightarrow> error + (ndarray \<times> OptimizationProblem)" where
  "LCMV_solve linalg_inv self problem_inputs save_solution =
     ebind (index0 (fused_signals problem_inputs)) (\<lambda>Y.
     ebind (index0 (fused_constants problem_inputs)) (\<lambda>B.
     ebind (index0 (global_parameters problem_inputs)) (\<lambda>H.
     ebind (autocorrelation_matrix Y None) (\<lambda>Ryy.
     ebind (linalg_inv Ryy) (\<lambda>Ri.
     ebind (matmul Ri B) (\<lambda>RiB.
     ebind (linalg_inv Ryy) (\<lambda>Ri'.
     ebind (matmul (np_T B) Ri') (\<lambda>BtRi.
     ebind (matmul BtRi B) (\<lambda>G.
     ebind (linalg_inv G) (\<lambda>Gi.
     ebind (matmul RiB Gi) (\<lambda>RiBGi.
     ebind (matmul RiBGi (np_T H)) (\<lambda>X_star.
     Inr (X_star, if save_solution then self\<lparr>p_X_star := Some X_star\<rparr> else self)))))))))))))"

text \<open>
  \<open>get_problem_constraints\<close> returns what \<open>ConstraintType\<close> admits: a pair (equality
  residual function or \<open>None\<close>, inequality residual function or \<open>None\<close>), or \<open>None\<close> alone.
\<close>

type_synonym residual_fn = "ndarray \<Rightarrow> error + ndarray"

type_synonym ConstraintType = "(residual_fn option \<times> residual_fn option) option"

definition equality_constraint :: "ndarray \<Rightarrow> ndarray \<Rightarrow> residual_fn" where
  "equality_constraint B H X = ebind (matmul (np_T X) B) (\<lambda>XtB. np_sub XtB H)"

definition LCMV_get_problem_constraints :: "ProblemInputs \<Rightarrow> error + ConstraintType" where
  "LCMV_get_problem_constraints problem_inputs =
     ebind (index0 (fused_constants problem_inputs)) (\<lambda>B.
     ebind (index0 (global_parameters problem_inputs)) (\<lambda>H.
     Inr (Some (Some (equality_constraint B H), None))))"

text \<open>\<open>MMSEProblem.solve\<close>.\<close>

definition MMSE_solve ::
  "(ndarray \<Rightarrow> error + ndarray) \<Rightarrow> OptimizationProblem \<Rightarrow> ProblemInputs \<Rightarrow> bool
     \<Rightarrow> error + (ndarray \<times> OptimizationProblem)" where
  "MMSE_solve linalg_inv self problem_inputs save_solution =
     ebind (index0 (fused_signals problem_inputs)) (\<lambda>Y.
     ebind (index0 (global_parameters problem_inputs)) (\<lambda>D.
     ebind (autocorrelation_matrix Y None) (\<lambda>Ryy.
     ebind (cross_correlation_matrix Y D None) (\<lambda>Ryd.
     ebind (linalg_inv Ryy) (\<lambda>Ri.
     ebind (matmul Ri Ryd) (\<lambda>X_star.
     Inr (X_star, if save_solution then self\<lparr>p_X_star := Some X_star\<rparr> else self)))))))"

text \<open>
  \<open>MMSEProblem.get_problem_constraints(self, **kwargs)\<close> takes keyword arguments only,
  reads none of them and returns \<open>None\<close>.
\<close>

definition MMSE_get_problem_constraints :: "(string \<times> ProblemInputs) list \<Rightarrow> ConstraintType" where
  "MMSE_get_problem_constraints kwargs = None"

text \<open>
  An inverse routine for matrices of order 1 and 2 (the adjugate over the determinant),
  to run the solvers on concrete inputs.
\<close>

definition adjugate_inv :: "ndarray \<Rightarrow> error + ndarray" where
  "adjugate_inv A =
     (if nrows A = 1 \<and> ncols A = 1 then
        (if entry A 0 0 = 0 then Inl LinAlgError else Inr (NDArray 1 1 [[1 / entry A 0 0]]))
      else if nrows A = 2 \<and> ncols A = 2 then
        (let det = entry A 0 0 * entry A 1 1 - entry A 0 1 * entry A 1 0 in
         if det = 0 then Inl LinAlgError
         else Inr (NDArray 2 2 [[entry A 1 1 / det, - entry A 0 1 / det],
                                [- entry A 1 0 / det, entry A 0 0 / det]]))
      else Inl LinAlgError)"

text \<open>An inverse routine returns a matrix of the shape of its argument.\<close>

definition shape_preserving :: "(ndarray \<Rightarrow> error + ndarray) \<Rightarrow> bool" where
  "shape_preserving linalg_inv \<longleftrightarrow>
     (\<forall>A A'. linalg_inv A = Inr A' \<longrightarrow> nrows A' = nrows A \<and> ncols A' = ncols A)"

section \<open>The random generator\<close>

text \<open>
  A \<open>np.random.Generator\<close> is represented by the sequence of standard normal variates it
  yields and the number of variates already drawn; drawing advances the count, as the
  Python object is advanced in place. \<open>standard_normal(size=(r, c))\<close> fills the array row
  by row, \<open>normal(loc, scale, size)\<close> returns \<open>loc + scale * z\<close> for each variate \<open>z\<close>, and
  a negative extent raises \<open>ValueError\<close>.
\<close>

record Generator =
  variates :: "nat \<Rightarrow> real"
  drawn :: nat

definition standard_normal :: "Generator \<Rightarrow> int \<times> int \<Rightarrow> error + (ndarray \<times> Generator)" where
  "standard_normal rng shape =
     (case shape of (r, c) \<Rightarrow>
        if r < 0 \<or> c < 0 then Inl ValueError
        else Inr (mk (nat r) (nat c) (\<lambda>i j. variates rng (drawn rng + i * nat c + j)),
                  rng\<lparr>drawn := drawn rng + nat r * nat c\<rparr>))"

definition normal :: "Generator \<Rightarrow> real \<Rightarrow> real \<Rightarrow> int \<times> int \<Rightarrow> error + (ndarray \<times> Generator)" where
  "normal rng loc scale shape =
     ebind (standard_normal rng shape) (\<lambda>(Z, rng').
     Inr (map_entries (\<lambda>z. loc + scale * z) Z, rng'))"

section \<open>The LCMV data retriever (\<open>dasftoolbox/data_retrievers/lcmv_data_retriever.py\<close>)\<close>

text \<open>
  \<open>DataWindowParameters\<close> is declared in \<open>dasftoolbox/data_retrievers/data_retriever.py\<close>;
  the retriever reads its \<open>window_length\<close>. The attribute \<open>self.x\<close> of the retriever is
  the field \<open>r_x\<close>.
\<close>

record DataWindowParameters =
  window_length :: int
  nb_window_reuse :: int

record LCMVDataRetriever =
  r_data_window_params :: DataWindowParameters
  r_D :: ndarray
  r_A_0 :: ndarray
  r_Delta :: ndarray
  r_noise :: ndarray
  r_nb_filters :: int
  r_nb_steering :: int
  r_B :: ndarray
  r_H :: ndarray
  r_weights :: ndarray1

text \<open>
  \<open>__init__\<close> draws from the generator it is given, so it returns the generator after the
  draws together with the new retriever.
\<close>

definition LCMVDataRetriever_init ::
  "DataWindowParameters \<Rightarrow> int \<Rightarrow> int \<Rightarrow> int \<Rightarrow> Generator \<Rightarrow> int \<Rightarrow> int option
     \<Rightarrow> real \<Rightarrow> real \<Rightarrow> real \<Rightarrow> real \<Rightarrow> error + (LCMVDataRetriever \<times> Generator)" where
  "LCMVDataRetriever_init data_window_params nb_sensors nb_sources nb_windows rng nb_filters
       nb_steering signal_var noise_var mixture_var diff_var =
     (let nb_samples = window_length data_window_params in
      ebind (normal rng 0 (sqrt signal_var) (nb_sources, nb_samples)) (\<lambda>(D, rng).
      ebind (normal rng 0 (sqrt mixture_var) (nb_sensors, nb_sources)) (\<lambda>(A_0, rng).
      ebind (normal rng 0 (sqrt mixture_var) (nb_sensors, nb_sources)) (\<lambda>(Delta, rng).
      let Delta = div_scalar (mul_scalar (mul_scalar Delta (fro_norm A_0)) diff_var)
                    (fro_norm Delta) in
      ebind (normal rng 0 (sqrt noise_var) (nb_sensors, nb_samples)) (\<lambda>(noise, rng).
      let self_nb_steering = (case nb_steering of Some k \<Rightarrow> k | None \<Rightarrow> nb_filters);
          B = slice_cols A_0 nb_steering in
      ebind (standard_normal rng (nb_filters, self_nb_steering)) (\<lambda>(H, rng).
      ebind (weight_function nb_windows) (\<lambda>weights.
      Inr (\<lparr>r_data_window_params = data_window_params, r_D = D, r_A_0 = A_0,
            r_Delta = Delta, r_noise = noise, r_nb_filters = nb_filters,
            r_nb_steering = self_nb_steering, r_B = B, r_H = H, r_weights = weights\<rparr>,
           rng))))))))"

definition get_data_window :: "LCMVDataRetriever \<Rightarrow> int \<Rightarrow> error + ProblemInputs" where
  "get_data_window self window_id =
     ebind (getitem (r_weights self) window_id) (\<lambda>w.
     ebind (np_add (r_A_0 self) (mul_scalar (r_Delta self) w)) (\<lambda>A.
     ebind (matmul A (r_D self)) (\<lambda>AD.
     ebind (np_add AD (r_noise self)) (\<lambda>Y_window.
     ebind (normalize Y_window 1) (\<lambda>Y_window.
     Inr \<lparr>fused_signals = [Y_window], fused_constants = [r_B self],
          global_parameters = [r_H self]\<rparr>)))))"

section \<open>The legacy retriever module (\<open>data_retriever.py\<close>)\<close>

text \<open>
  The class \<open>LCMVDataRetriever\<close> of the legacy module. Its constructor takes \<open>nb_samples\<close>
  itself, its window method is \<open>get_current_window\<close>, and its \<open>weight_function\<close> has no
  branch for fewer than 10 windows. The attribute \<open>self.x\<close> is the field \<open>l_x\<close>.
\<close>

record LegacyLCMVDataRetriever =
  l_D :: ndarray
  l_A_0 :: ndarray
  l_Delta :: ndarray
  l_noise :: ndarray
  l_nb_filters :: int
  l_nb_steering :: int
  l_B :: ndarray
  l_H :: ndarray
  l_weights :: ndarray1

definition legacy_weight_function :: "int \<Rightarrow> error + ndarray1" where
  "legacy_weight_function nb_windows =
     ebind (linspace_0_1 (int_truediv (5 * nb_windows) 10)) (\<lambda>segment_1.
     ebind (linspace_0_1 (int_truediv (3 * nb_windows) 10)) (\<lambda>segment_2.
     ebind (linspace_0_1 (int_truediv (2 * nb_windows) 10)) (\<lambda>segment_3.
     Inr (segment_1 @ segment_2 @ segment_3))))"

definition LegacyLCMVDataRetriever_init ::
  "int \<Rightarrow> int \<Rightarrow> int \<Rightarrow> int \<Rightarrow> Generator \<Rightarrow> int \<Rightarrow> int option
     \<Rightarrow> real \<Rightarrow> real \<Rightarrow> real \<Rightarrow> real \<Rightarrow> error + (LegacyLCMVDataRetriever \<times> Generator)" where
  "LegacyLCMVDataRetriever_init nb_samples nb_sensors nb_sources nb_windows rng nb_filters
       nb_steering signal_var noise_var mixture_var diff_var =
     ebind (normal rng 0 (sqrt signal_var) (nb_sources, nb_samples)) (\<lambda>(D, rng).
     ebind (normal rng 0 (sqrt mixture_var) (nb_sensors, nb_sources)) (\<lambda>(A_0, rng).
     ebind (normal rng 0 (sqrt mixture_var) (nb_sensors, nb_sources)) (\<lambda>(Delta, rng).
     let Delta = div_scalar (mul_scalar (mul_scalar Delta (fro_norm A_0)) diff_var)
                   (fro_norm Delta) in
     ebind (normal rng 0 (sqrt noise_var) (nb_sensors, nb_samples)) (\<lambda>(noise, rng).
     let self_nb_steering = (case nb_steering of Some k \<Rightarrow> k | None \<Rightarrow> nb_filters);
         B = slice_cols A_0 nb_steering in
     ebind (standard_normal rng (nb_filters, self_nb_steering)) (\<lambda>(H, rng).
     ebind (legacy_weight_function nb_windows) (\<lambda>weights.
     Inr (\<lparr>l_D = D, l_A_0 = A_0, l_Delta = Delta, l_noise = noise, l_nb_filters = nb_filters,
           l_nb_steering = self_nb_steering, l_B = B, l_H = H, l_weights = weights\<rparr>,
          rng)))))))"

definition get_current_window :: "LegacyLCMVDataRetriever \<Rightarrow> int \<Rightarrow> error + ProblemInputs" where
  "get_current_window self window_id =
     ebind (getitem (l_weights self) window_id) (\<lambda>w.
     ebind (np_add (l_A_0 self) (mul_scalar (l_Delta self) w)) (\<lambda>A.
     ebind (matmul A (l_D self)) (\<lambda>AD.
     ebind (np_add AD (l_noise self)) (\<lambda>Y_window.
     ebind (normalize Y_window 1) (\<lambda>Y_window.
     Inr \<lparr>fused_signals = [Y_window], fused_constants = [l_B self],
          global_parameters = [l_H self]\<rparr>)))))"

text \<open>The state of a canonical retriever, read as a legacy retriever.\<close>

definition as_legacy :: "LCMVDataRetriever \<Rightarrow> LegacyLCMVDataRetriever" where
  "as_legacy r = \<lparr>l_D = r_D r, l_A_0 = r_A_0 r, l_Delta = r_Delta r, l_noise = r_noise r,
     l_nb_filters = r_nb_filters r, l_nb_steering = r_nb_steering r, l_B = r_B r, l_H = r_H r,
     l_weights = r_weights r\<rparr>"

section \<open>The covariances in the spec's words\<close>

text \<open>
  The outer product of two one-dimensional arrays, and the covariance and the
  cross-covariance as the spec words them: the symmetrized \<open>(Y @ Y.T) / n\<close> minus the outer
  product of the row means of \<open>Y\<close> with themselves, and \<open>(Y @ D.T) / n\<close> minus the outer
  product of the row means of \<open>Y\<close> with the row means of \<open>D\<close>.
\<close>

definition outer :: "ndarray1 \<Rightarrow> ndarray1 \<Rightarrow> ndarray" where
  "outer u v = mk (length u) (length v) (\<lambda>i j. u ! i * v ! j)"

definition spec_covariance :: "ndarray \<Rightarrow> int option \<Rightarrow> error + ndarray" where
  "spec_covariance Y normalizer =
     ebind (autocorrelation_matrix Y normalizer) (\<lambda>S.
     np_sub S (outer (np_mean_axis1 Y) (np_mean_axis1 Y)))"

definition spec_cross_covariance :: "ndarray \<Rightarrow> ndarray \<Rightarrow> int option \<Rightarrow> error + ndarray" where
  "spec_cross_covariance Y D normalizer =
     ebind (cross_correlation_matrix Y D normalizer) (\<lambda>C.
     np_sub C (outer (np_mean_axis1 Y) (np_mean_axis1 D)))"

section \<open>A concrete generator and concrete constructions\<close>

text \<open>
  A generator whose variates alternate \<open>1, -1, 1, ...\<close>, and the retrievers that the two
  modules construct from it for 1 sensor, 1 source, windows of 2 samples, 5 windows,
  1 filter and all four variance parameters equal to 1.
\<close>

definition alternating_rng :: Generator where
  "alternating_rng = \<lparr>variates = (\<lambda>k. if even k then 1 else - 1), drawn = 0\<rparr>"

definition two_samples :: DataWindowParameters where
  "two_samples = \<lparr>window_length = 2, nb_window_reuse = 1\<rparr>"

definition small_retriever :: "error + (LCMVDataRetriever \<times> Generator)" where
  "small_retriever = LCMVDataRetriever_init two_samples 1 1 5 alternating_rng 1 None 1 1 1 1"

definition small_legacy_retriever :: "error + (LegacyLCMVDataRetriever \<times> Generator)" where
  "small_legacy_retriever = LegacyLCMVDataRetriever_init 2 1 1 5 alternating_rng 1 None 1 1 1 1"

text \<open>
  The drift weights the two constructions store and the window each returns for an
  index, and a construction with 1 source and 2 filters that leaves \<open>nb_steering\<close> out.
\<close>

definition small_weights :: "error + ndarray1" where
  "small_weights = ebind small_retriever (\<lambda>(r, g). Inr (r_weights r))"

definition small_legacy_weights :: "error + ndarray1" where
  "small_legacy_weights = ebind small_legacy_retriever (\<lambda>(r, g). Inr (l_weights r))"

definition small_window :: "int \<Rightarrow> error + ProblemInputs" where
  "small_window window_id = ebind small_retriever (\<lambda>(r, g). get_data_window r window_id)"

definition small_legacy_window :: "int \<Rightarrow> error + ProblemInputs" where
  "small_legacy_window window_id =
     ebind small_legacy_retriever (\<lambda>(r, g). get_current_window r window_id)"

definition mismatched_retriever :: "error + (LCMVDataRetriever \<times> Generator)" where
  "mismatched_retriever = LCMVDataRetriever_init two_samples 1 1 1 alternating_rng 2 None 1 1 1 1"

text \<open>
  Two generators are seeded alike when they yield the same variates from where they
  stand.
\<close>

definition same_stream :: "Generator \<Rightarrow> Generator \<Rightarrow> bool" where
  "same_stream g1 g2 \<longleftrightarrow> (\<forall>k. variates g1 (drawn g1 + k) = variates g2 (drawn g2 + k))"

text \<open>
  A second generator object that stands one variate further in the sequence
  \<open>-1, 1, -1, ...\<close> and so yields the variates of \<open>alternating_rng\<close>, and the window
  that the retriever constructed from it returns.
\<close>

definition shifted_rng :: Generator where
  "shifted_rng = \<lparr>variates = (\<lambda>k. if even k then - 1 else 1), drawn = 1\<rparr>"

definition shifted_window :: "int \<Rightarrow> error + ProblemInputs" where
  "shifted_window window_id =
     ebind (LCMVDataRetriever_init two_samples 1 1 5 shifted_rng 1 None 1 1 1 1)
       (\<lambda>(r, g). get_data_window r window_id)"

text \<open>
  The LCMV problem with 2 filters solved on window 0 of \<open>mismatched_retriever\<close>.
\<close>

definition mismatched_solve :: "error + (ndarray \<times> OptimizationProblem)" where
  "mismatched_solve =
     ebind mismatched_retriever (\<lambda>(r, g).
     ebind (get_data_window r 0) (\<lambda>inputs.
     LCMV_solve adjugate_inv \<lparr>p_nb_filters = 2, p_X_star = None\<rparr> inputs False))"

section \<open>Arrays: shapes, entries and the algebra of the matrix product\<close>

lemma nrows_mk [simp]: "nrows (mk r c f) = r" and ncols_mk [simp]: "ncols (mk r c f) = c"
  by (simp_all add: mk_def)

lemma wf_mk [simp]: "wf_array (mk r c f)"
  by (simp add: wf_array_def mk_def list_all_iff)

lemma entry_mk [simp]: "i < r \<Longrightarrow> j < c \<Longrightarrow> entry (mk r c f) i j = f i j"
  by (simp add: entry_def mk_def)

lemma mk_cong: "(\<And>i j. i < r \<Longrightarrow> j < c \<Longrightarrow> f i j = g i j) \<Longrightarrow> mk r c f = mk r c g"
  by (simp add: mk_def)

lemma mk_entry: "wf_array A \<Longrightarrow> mk (nrows A) (ncols A) (entry A) = A"
proof -
  assume w: "wf_array A"
  have "map (\<lambda>i. map (entry A i) [0..<ncols A]) [0..<nrows A] = elems A"
  proof (rule nth_equalityI)
    show "length (map (\<lambda>i. map (entry A i) [0..<ncols A]) [0..<nrows A]) = length (elems A)"
      using w by (simp add: wf_array_def)
  next
    fix i assume "i < length (map (\<lambda>i. map (entry A i) [0..<ncols A]) [0..<nrows A])"
    then have i: "i < nrows A" by simp
    then have len: "length (elems A ! i) = ncols A"
      using w by (simp add: wf_array_def list_all_length)
    have "map (entry A i) [0..<ncols A] = elems A ! i"
      by (rule nth_equalityI) (simp_all add: len entry_def)
    then show "map (\<lambda>i. map (entry A i) [0..<ncols A]) [0..<nrows A] ! i = elems A ! i"
      using i by simp
  qed
  then show ?thesis
    by (cases A) (simp add: mk_def)
qed

lemma ndarray_eqI:
  assumes "wf_array A" "wf_array B" "nrows A = nrows B" "ncols A = ncols B"
    and "\<And>i j. i < nrows A \<Longrightarrow> j < ncols A \<Longrightarrow> entry A i j = entry B i j"
  shows "A = B"
proof -
  have "mk (nrows A) (ncols A) (entry A) = mk (nrows A) (ncols A) (entry B)"
    by (rule mk_cong) (rule assms(5))
  moreover have "mk (nrows A) (ncols A) (entry A) = A"
    using assms(1) by (rule mk_entry)
  moreover have "mk (nrows A) (ncols A) (entry B) = B"
    using assms(2) unfolding assms(3,4) by (rule mk_entry)
  ultimately show ?thesis by simp
qed

lemma sum_list_upt: "sum_list (map f [0..<n]) = sum f {..<n}"
  by (simp add: interv_sum_list_conv_sum_set_nat atLeast0LessThan)

lemma nrows_T [simp]: "nrows (np_T A) = ncols A" and ncols_T [simp]: "ncols (np_T A) = nrows A"
  by (simp_all add: np_T_def)

lemma wf_T [simp]: "wf_array (np_T A)"
  by (simp add: np_T_def)

lemma entry_T [simp]: "i < ncols A \<Longrightarrow> j < nrows A \<Longrightarrow> entry (np_T A) i j = entry A j i"
  by (simp add: np_T_def)

lemma T_T: "wf_array A \<Longrightarrow> np_T (np_T A) = A"
  by (rule ndarray_eqI) simp_all

lemma nrows_dot [simp]: "nrows (dot A B) = nrows A" and ncols_dot [simp]: "ncols (dot A B) = ncols B"
  by (simp_all add: dot_def)

lemma wf_dot [simp]: "wf_array (dot A B)"
  by (simp add: dot_def)

lemma entry_dot:
  "i < nrows A \<Longrightarrow> j < ncols B \<Longrightarrow> entry (dot A B) i j = (\<Sum>k<ncols A. entry A i k * entry B k j)"
  by (simp add: dot_def sum_list_upt)

lemma dot_assoc:
  assumes "ncols A = nrows B" "ncols B = nrows C"
  shows "dot (dot A B) C = dot A (dot B C)"
proof (rule ndarray_eqI)
  fix i j assume "i < nrows (dot (dot A B) C)" "j < ncols (dot (dot A B) C)"
  then have i: "i < nrows A" and j: "j < ncols C" by simp_all
  have "entry (dot (dot A B) C) i j = (\<Sum>k<ncols B. (\<Sum>l<ncols A. entry A i l * entry B l k) * entry C k j)"
    using i j by (simp add: entry_dot)
  also have "\<dots> = (\<Sum>k<ncols B. \<Sum>l<ncols A. entry A i l * (entry B l k * entry C k j))"
    by (simp add: sum_distrib_right mult.assoc)
  also have "\<dots> = (\<Sum>l<ncols A. \<Sum>k<ncols B. entry A i l * (entry B l k * entry C k j))"
    by (rule sum.swap)
  also have "\<dots> = (\<Sum>l<ncols A. entry A i l * (\<Sum>k<ncols B. entry B l k * entry C k j))"
    by (simp add: sum_distrib_left)
  also have "\<dots> = entry (dot A (dot B C)) i j"
    using i j assms by (simp add: entry_dot)
  finally show "entry (dot (dot A B) C) i j = entry (dot A (dot B C)) i j" .
qed simp_all

lemma T_dot:
  assumes "ncols A = nrows B"
  shows "np_T (dot A B) = dot (np_T B) (np_T A)"
  by (rule ndarray_eqI) (simp_all add: entry_dot assms mult.commute)

lemma nrows_eye [simp]: "nrows (eye n) = n" and ncols_eye [simp]: "ncols (eye n) = n"
  by (simp_all add: eye_def)

lemma wf_eye [simp]: "wf_array (eye n)"
  by (simp add: eye_def)

lemma entry_eye [simp]: "i < n \<Longrightarrow> j < n \<Longrightarrow> entry (eye n) i j = (if i = j then 1 else 0)"
  by (simp add: eye_def)

lemma T_eye [simp]: "np_T (eye n) = eye n"
  by (rule ndarray_eqI) auto

lemma dot_eye_right: "wf_array A \<Longrightarrow> dot A (eye (ncols A)) = A"
proof (rule ndarray_eqI)
  fix i j assume "i < nrows (dot A (eye (ncols A)))" "j < ncols (dot A (eye (ncols A)))"
  then have i: "i < nrows A" and j: "j < ncols A" by simp_all
  have "entry (dot A (eye (ncols A))) i j = (\<Sum>k<ncols A. entry A i k * (if k = j then 1 else 0))"
    using i j by (simp add: entry_dot)
  also have "\<dots> = (\<Sum>k<ncols A. if k = j then entry A i j else 0)"
    by (rule sum.cong) auto
  also have "\<dots> = entry A i j"
    using j by simp
  finally show "entry (dot A (eye (ncols A))) i j = entry A i j" .
qed simp_all

lemma dot_eye_left: "wf_array A \<Longrightarrow> dot (eye (nrows A)) A = A"
proof (rule ndarray_eqI)
  fix i j assume "i < nrows (dot (eye (nrows A)) A)" "j < ncols (dot (eye (nrows A)) A)"
  then have i: "i < nrows A" and j: "j < ncols A" by simp_all
  have "entry (dot (eye (nrows A)) A) i j = (\<Sum>k<nrows A. (if i = k then 1 else 0) * entry A k j)"
    using i j by (simp add: entry_dot)
  also have "\<dots> = (\<Sum>k<nrows A. if k = i then entry A i j else 0)"
    by (rule sum.cong) auto
  also have "\<dots> = entry A i j"
    using i by simp
  finally show "entry (dot (eye (nrows A)) A) i j = entry A i j" .
qed simp_all

lemma inverse_unique:
  assumes "is_inverse A X" "wf_array Y" "nrows Y = nrows A" "ncols Y = ncols A" "dot Y A = eye (nrows A)"
  shows "Y = X"
proof -
  from assms(1) have X: "wf_array X" "nrows A = ncols A" "nrows X = nrows A" "ncols X = ncols A"
    "dot A X = eye (nrows A)" by (simp_all add: is_inverse_def)
  have "Y = dot Y (eye (ncols Y))" using assms(2) by (simp add: dot_eye_right)
  also have "\<dots> = dot Y (dot A X)" unfolding X(5) assms(4) X(2) ..
  also have "\<dots> = dot (dot Y A) X"
    by (rule dot_assoc [symmetric]) (simp_all add: assms X)
  also have "\<dots> = dot (eye (nrows X)) X" unfolding assms(5) X(3) ..
  also have "\<dots> = X" using X(1) by (rule dot_eye_left)
  finally show ?thesis .
qed

lemma inverse_symmetric:
  assumes "is_inverse A X" "np_T A = A"
  shows "np_T X = X"
proof (rule inverse_unique [OF assms(1)])
  from assms(1) have X: "wf_array X" "nrows A = ncols A" "nrows X = nrows A" "ncols X = ncols A"
    "dot A X = eye (nrows A)" by (simp_all add: is_inverse_def)
  show "dot (np_T X) A = eye (nrows A)"
  proof -
    have "dot (np_T X) (np_T A) = np_T (dot A X)"
      by (rule T_dot [symmetric]) (simp add: X)
    then show ?thesis unfolding assms(2) X(5) by simp
  qed
qed (use assms in \<open>simp_all add: is_inverse_def\<close>)

section \<open>Symmetry of the autocorrelation matrix\<close>

lemma ebind_Inr [simp]: "ebind (Inr x) f = f x" and ebind_Inl [simp]: "ebind (Inl e) f = Inl e"
  by (simp_all add: ebind_def)

lemma broadcast_dim_same [simp]: "broadcast_dim a a = Some a"
  by (simp add: broadcast_dim_def)

lemma broadcast_op_same_shape:
  assumes "nrows A = nrows B" "ncols A = ncols B"
  shows "broadcast_op f A B = Inr (mk (nrows A) (ncols A) (\<lambda>i j. f (entry A i j) (entry B i j)))"
proof -
  have "mk (nrows A) (ncols A) (\<lambda>i j. f (entry A (bidx (nrows A) i) (bidx (ncols A) j))
                              (entry B (bidx (nrows B) i) (bidx (ncols B) j)))
      = mk (nrows A) (ncols A) (\<lambda>i j. f (entry A i j) (entry B i j))"
    by (rule mk_cong) (auto simp: bidx_def assms [symmetric])
  then show ?thesis
    by (simp add: broadcast_op_def assms [symmetric])
qed

lemma nrows_map_entries [simp]: "nrows (map_entries g A) = nrows A"
  and ncols_map_entries [simp]: "ncols (map_entries g A) = ncols A"
  by (simp_all add: map_entries_def)

lemma wf_map_entries [simp]: "wf_array (map_entries g A)"
  by (simp add: map_entries_def)

lemma entry_map_entries [simp]:
  "i < nrows A \<Longrightarrow> j < ncols A \<Longrightarrow> entry (map_entries g A) i j = g (entry A i j)"
  by (simp add: map_entries_def)

lemma make_symmetric_square:
  assumes "nrows M = ncols M"
  shows "make_symmetric M =
    Inr (mk (nrows M) (nrows M) (\<lambda>i j. (entry M i j + entry (np_T M) i j) / 2))"
proof -
  have "np_add M (np_T M) = Inr (mk (nrows M) (ncols M) (\<lambda>i j. entry M i j + entry (np_T M) i j))"
    unfolding np_add_def by (rule broadcast_op_same_shape) (simp_all add: assms)
  moreover have "div_scalar (mk (nrows M) (ncols M) (\<lambda>i j. entry M i j + entry (np_T M) i j)) 2
      = mk (nrows M) (nrows M) (\<lambda>i j. (entry M i j + entry (np_T M) i j) / 2)"
    by (rule ndarray_eqI) (simp_all add: div_scalar_def assms)
  ultimately show ?thesis
    by (simp add: make_symmetric_def)
qed

lemma symmetrized_symmetric:
  "np_T (mk n n (\<lambda>i j. (entry M i j + entry (np_T M) i j) / 2)) = mk n n (\<lambda>i j. (entry M i j + entry (np_T M) i j) / 2)"
  if "nrows M = n" "ncols M = n"
  by (rule ndarray_eqI) (simp_all add: that)

lemma autocorrelation_value:
  "autocorrelation_matrix Y normalizer =
     Inr (mk (nrows Y) (nrows Y)
       (\<lambda>i j. (entry (div_scalar (dot Y (np_T Y)) (default_normalizer Y normalizer)) i j
            + entry (np_T (div_scalar (dot Y (np_T Y)) (default_normalizer Y normalizer))) i j) / 2))"
proof -
  define P where "P = div_scalar (dot Y (np_T Y)) (default_normalizer Y normalizer)"
  have sq: "nrows P = ncols P" and r: "nrows P = nrows Y"
    by (simp_all add: P_def div_scalar_def)
  have "autocorrelation_matrix Y normalizer = make_symmetric P"
    by (simp add: autocorrelation_matrix_def matmul_def P_def Let_def)
  then have "autocorrelation_matrix Y normalizer =
      Inr (mk (nrows Y) (nrows Y) (\<lambda>i j. (entry P i j + entry (np_T P) i j) / 2))"
    using make_symmetric_square [OF sq] by (simp add: r)
  then show ?thesis
    unfolding P_def .
qed

lemma autocorrelation_props:
  assumes "autocorrelation_matrix Y normalizer = Inr Ryy"
  shows "np_T Ryy = Ryy" "nrows Ryy = nrows Y" "ncols Ryy = nrows Y" "wf_array Ryy"
proof -
  have R: "Ryy = mk (nrows Y) (nrows Y)
       (\<lambda>i j. (entry (div_scalar (dot Y (np_T Y)) (default_normalizer Y normalizer)) i j
            + entry (np_T (div_scalar (dot Y (np_T Y)) (default_normalizer Y normalizer))) i j) / 2)"
    using assms unfolding autocorrelation_value by simp
  show "np_T Ryy = Ryy"
    unfolding R by (rule symmetrized_symmetric) (simp_all add: div_scalar_def)
  show "nrows Ryy = nrows Y" "ncols Ryy = nrows Y" "wf_array Ryy"
    by (simp_all add: R)
qed

text \<open>
  Claim C7. For every array \<open>Y\<close> and every normalizer, \<open>autocorrelation_matrix\<close> returns
  (it raises nothing) the entrywise average of \<open>P = (Y @ Y.T) / n\<close> with the transpose of
  \<open>P\<close>, where \<open>n\<close> is the normalizer and defaults to the number of columns of \<open>Y\<close>; the
  returned matrix equals its own transpose.
\<close>

theorem autocorrelation_symmetric:
  "(let n = default_normalizer Y normalizer;
        P = div_scalar (dot Y (np_T Y)) n;
        R = mk (nrows Y) (nrows Y) (\<lambda>i j. (entry P i j + entry (np_T P) i j) / 2)
    in autocorrelation_matrix Y normalizer = Inr R \<and> np_T R = R)
   \<and> default_normalizer Y None = real (ncols Y)"
proof -
  have "np_T (mk (nrows Y) (nrows Y)
       (\<lambda>i j. (entry (div_scalar (dot Y (np_T Y)) (default_normalizer Y normalizer)) i j
            + entry (np_T (div_scalar (dot Y (np_T Y)) (default_normalizer Y normalizer))) i j) / 2))
      = mk (nrows Y) (nrows Y)
       (\<lambda>i j. (entry (div_scalar (dot Y (np_T Y)) (default_normalizer Y normalizer)) i j
            + entry (np_T (div_scalar (dot Y (np_T Y)) (default_normalizer Y normalizer))) i j) / 2)"
    by (rule symmetrized_symmetric) (simp_all add: div_scalar_def)
  then show ?thesis
    using autocorrelation_value [of Y normalizer]
    by (simp add: Let_def default_normalizer_def)
qed

section \<open>The LCMV closed form satisfies its constraint\<close>

lemma index0_Cons [simp]: "index0 (x # xs) = Inr x"
  by (simp add: index0_def)

lemma gram_symmetric:
  assumes "np_T Ri = Ri" "wf_array B" "nrows Ri = nrows B" "ncols Ri = nrows B"
  shows "np_T (dot (dot (np_T B) Ri) B) = dot (dot (np_T B) Ri) B"
proof -
  have "np_T (dot (dot (np_T B) Ri) B) = dot (np_T B) (np_T (dot (np_T B) Ri))"
    by (rule T_dot) (simp add: assms)
  also have "np_T (dot (np_T B) Ri) = dot (np_T Ri) (np_T (np_T B))"
    by (rule T_dot) (simp add: assms)
  also have "\<dots> = dot Ri B"
    by (simp add: assms T_T)
  also have "dot (np_T B) (dot Ri B) = dot (dot (np_T B) Ri) B"
    by (rule dot_assoc [symmetric]) (simp_all add: assms)
  finally show ?thesis .
qed

lemma constraint_at_optimum:
  assumes B: "wf_array B" and H: "wf_array H" "ncols H = ncols B"
    and Ri: "np_T Ri = Ri" "nrows Ri = nrows B" "ncols Ri = nrows B"
    and Gi: "is_inverse (dot (dot (np_T B) Ri) B) Gi"
  shows "dot (np_T (dot (dot (dot Ri B) Gi) (np_T H))) B = H"
proof -
  let ?G = "dot (dot (np_T B) Ri) B"
  have G_sym: "np_T ?G = ?G"
    using Ri(1) B Ri(2,3) by (rule gram_symmetric)
  have Gi_sym: "np_T Gi = Gi"
    using Gi G_sym by (rule inverse_symmetric)
  have Gi_shape: "wf_array Gi" "nrows Gi = ncols B" "ncols Gi = ncols B" and GiG: "dot Gi ?G = eye (ncols B)"
    using Gi by (simp_all add: is_inverse_def)
  have "np_T (dot (dot (dot Ri B) Gi) (np_T H)) = dot (np_T (np_T H)) (np_T (dot (dot Ri B) Gi))"
    by (rule T_dot) (simp add: Gi_shape H)
  also have "np_T (np_T H) = H"
    using H(1) by (rule T_T)
  also have "np_T (dot (dot Ri B) Gi) = dot (np_T Gi) (np_T (dot Ri B))"
    by (rule T_dot) (simp add: Gi_shape)
  also have "np_T (dot Ri B) = dot (np_T B) (np_T Ri)"
    by (rule T_dot) (simp add: Ri)
  finally have XT: "np_T (dot (dot (dot Ri B) Gi) (np_T H)) = dot H (dot Gi (dot (np_T B) Ri))"
    by (simp add: Gi_sym Ri(1))
  have "dot (dot H (dot Gi (dot (np_T B) Ri))) B = dot H (dot (dot Gi (dot (np_T B) Ri)) B)"
    by (rule dot_assoc) (simp_all add: H Gi_shape Ri)
  also have "dot (dot Gi (dot (np_T B) Ri)) B = dot Gi ?G"
    by (rule dot_assoc) (simp_all add: Gi_shape Ri)
  also have "dot H (dot Gi ?G) = H"
    unfolding GiG H(2) [symmetric] using H(1) by (rule dot_eye_right)
  finally show ?thesis
    unfolding XT .
qed

lemma np_sub_self:
  "np_sub H H = Inr (mk (nrows H) (ncols H) (\<lambda>i j. 0))"
  unfolding np_sub_def by (simp add: broadcast_op_same_shape)

text \<open>
  Claim C1. Let the inputs hold the signal block \<open>Y\<close>, the steering matrix \<open>B\<close> (with as
  many rows as \<open>Y\<close>) and the constraint target \<open>H\<close> (with as many columns as \<open>B\<close>), let
  \<open>Ryy\<close> be the autocorrelation of \<open>Y\<close>, and let the inverse routine return the inverse
  \<open>Ri\<close> of \<open>Ryy\<close> and the inverse \<open>Gi\<close> of \<open>B.T @ Ri @ B\<close>. Then \<open>solve\<close> returns
  \<open>X* = Ri @ B @ Gi @ H.T\<close>, and the equality residual \<open>X*.T @ B - H\<close> that
  \<open>get_problem_constraints\<close> hands out is the zero matrix of the shape of \<open>H\<close>.
\<close>

theorem LCMV_solve_optimum:
  assumes inputs: "fused_signals inputs = Y # Ys" "fused_constants inputs = B # Bs"
      "global_parameters inputs = H # Hs"
    and shapes: "wf_array B" "wf_array H" "nrows B = nrows Y" "ncols H = ncols B"
    and Ryy: "autocorrelation_matrix Y None = Inr Ryy"
    and Ri: "linalg_inv Ryy = Inr Ri" "is_inverse Ryy Ri"
    and Gi: "linalg_inv (dot (dot (np_T B) Ri) B) = Inr Gi"
            "is_inverse (dot (dot (np_T B) Ri) B) Gi"
  shows "LCMV_solve linalg_inv self inputs save_solution =
           Inr (dot (dot (dot Ri B) Gi) (np_T H),
                if save_solution then self\<lparr>p_X_star := Some (dot (dot (dot Ri B) Gi) (np_T H))\<rparr>
                else self)
         \<and> LCMV_get_problem_constraints inputs = Inr (Some (Some (equality_constraint B H), None))
         \<and> equality_constraint B H (dot (dot (dot Ri B) Gi) (np_T H))
             = Inr (mk (nrows H) (ncols H) (\<lambda>i j. 0))"
proof -
  note R = autocorrelation_props [OF Ryy]
  have Ri_shape: "nrows Ri = nrows B" "ncols Ri = nrows B"
    using Ri(2) R shapes by (simp_all add: is_inverse_def)
  have Ri_sym: "np_T Ri = Ri"
    using Ri(2) R(1) by (rule inverse_symmetric)
  have Gi_shape: "nrows Gi = ncols B" "ncols Gi = ncols B"
    using Gi(2) by (simp_all add: is_inverse_def)
  have solve: "LCMV_solve linalg_inv self inputs save_solution =
           Inr (dot (dot (dot Ri B) Gi) (np_T H),
                if save_solution then self\<lparr>p_X_star := Some (dot (dot (dot Ri B) Gi) (np_T H))\<rparr>
                else self)"
    by (simp add: LCMV_solve_def inputs Ryy Ri(1) Gi(1) matmul_def Ri_shape Gi_shape shapes)
  have cons: "LCMV_get_problem_constraints inputs = Inr (Some (Some (equality_constraint B H), None))"
    by (simp add: LCMV_get_problem_constraints_def inputs)
  have "dot (np_T (dot (dot (dot Ri B) Gi) (np_T H))) B = H"
    using shapes(1,2,4) Ri_sym Ri_shape Gi(2) by (rule constraint_at_optimum)
  then have res: "equality_constraint B H (dot (dot (dot Ri B) Gi) (np_T H))
             = Inr (mk (nrows H) (ncols H) (\<lambda>i j. 0))"
    by (simp add: equality_constraint_def matmul_def Ri_shape np_sub_self)
  show ?thesis
    using solve cons res by simp
qed

text \<open>The definitions that evaluate an array expression on concrete arrays.\<close>

lemmas ev = mk_def entry_def dot_def np_T_def matmul_def upt_conv_Cons wf_array_def eye_def is_inverse_def
  map_entries_def div_scalar_def broadcast_op_def broadcast_dim_def bidx_def np_add_def np_sub_def
  make_symmetric_def autocorrelation_matrix_def default_normalizer_def adjugate_inv_def Let_def
  ebind_def index0_def

theorem LCMV_solve_optimum_witness:
  "LCMV_solve adjugate_inv \<lparr>p_nb_filters = 1, p_X_star = None\<rparr>
     \<lparr>fused_signals = [NDArray 2 2 [[1, 1], [0, 2]]], fused_constants = [NDArray 2 1 [[1], [0]]],
      global_parameters = [NDArray 1 1 [[3]]]\<rparr> False
   = Inr (NDArray 2 1 [[3], [- 3 / 2]], \<lparr>p_nb_filters = 1, p_X_star = None\<rparr>)
   \<and> equality_constraint (NDArray 2 1 [[1], [0]]) (NDArray 1 1 [[3]]) (NDArray 2 1 [[3], [- 3 / 2]])
     = Inr (NDArray 1 1 [[0]])"
proof -
  let ?Y = "NDArray 2 2 [[1, 1], [0, 2]]" and ?B = "NDArray 2 1 [[1], [0]]" and ?H = "NDArray 1 1 [[3]]"
  let ?Ryy = "NDArray 2 2 [[1, 1], [1, 2]]" and ?Ri = "NDArray 2 2 [[2, - 1], [- 1, 1]]"
  let ?Gi = "NDArray 1 1 [[1 / 2]]"
  let ?inputs = "\<lparr>fused_signals = [?Y], fused_constants = [?B], global_parameters = [?H]\<rparr>"
  have 1: "fused_signals ?inputs = ?Y # []" "fused_constants ?inputs = ?B # []"
      "global_parameters ?inputs = ?H # []" by simp_all
  have 2: "wf_array ?B" "wf_array ?H" "nrows ?B = nrows ?Y" "ncols ?H = ncols ?B"
    by (simp_all add: wf_array_def)
  have 3: "autocorrelation_matrix ?Y None = Inr ?Ryy"
    by (simp add: ev)
  have 4: "adjugate_inv ?Ryy = Inr ?Ri" "is_inverse ?Ryy ?Ri"
    by (simp_all add: ev)
  have G: "dot (dot (np_T ?B) ?Ri) ?B = NDArray 1 1 [[2]]"
    by (simp add: ev)
  have 5: "adjugate_inv (dot (dot (np_T ?B) ?Ri) ?B) = Inr ?Gi"
     "is_inverse (dot (dot (np_T ?B) ?Ri) ?B) ?Gi"
    unfolding G by (simp_all add: ev)
  have X: "dot (dot (dot ?Ri ?B) ?Gi) (np_T ?H) = NDArray 2 1 [[3], [- 3 / 2]]"
    by (simp add: ev)
  show ?thesis
    using LCMV_solve_optimum [OF 1 2 3 4 5, of "\<lparr>p_nb_filters = 1, p_X_star = None\<rparr>" False]
    unfolding X by (simp add: mk_def)
qed

section \<open>The drift weights and the covariances\<close>

lemmas ev1 = ev matmul1_def np_T1_def np_mean_axis1_def mean_def sub_scalar_def outer_def
  cross_correlation_matrix_def

lemma linspace_ramp: "0 \<le> k \<Longrightarrow> linspace_0_1 k = Inr (ramp (nat k))"
  by (simp add: linspace_0_1_def ramp_def)

lemma weight_function_20: "weight_function 20 = Inr (ramp 10 @ ramp 6 @ ramp 4)"
  by (simp add: weight_function_def int_truediv_def linspace_ramp)

lemma ramp_20:
  "ramp 10 @ ramp 6 @ ramp 4 =
     [0, 1/10, 2/10, 3/10, 4/10, 5/10, 6/10, 7/10, 8/10, 9/10, 0, 1/6, 2/6, 3/6, 4/6, 5/6,
      0, 1/4, 2/4, 3/4]"
  by (simp add: ramp_def upt_conv_Cons)

lemma ramp_nth: "i < k \<Longrightarrow> ramp k ! i = real i / real k"
  by (simp add: ramp_def)

text \<open>
  Claim C2. For a window count \<open>n\<close> with \<open>0 \<le> n < 10\<close> the drift weights are \<open>n\<close> zeros.
  For \<open>n \<ge> 10\<close> they are three ramps one after the other, of \<open>floor(5n/10)\<close>,
  \<open>floor(3n/10)\<close> and \<open>floor(2n/10)\<close> values, where a ramp of \<open>k\<close> values is
  \<open>0, 1/k, ..., (k-1)/k\<close>: it has \<open>k\<close> values, all in \<open>[0, 1)\<close>, and never reaches 1.
  For \<open>n = 20\<close> the sequence has 20 values, all in \<open>[0, 1)\<close>, and drops at exactly two
  places: after index 9 and after index 15, that is where the segments of 50 and 30
  percent end.
\<close>

theorem weight_function_shape:
  "(0 \<le> n \<and> n < 10 \<longrightarrow> weight_function n = Inr (replicate (nat n) 0))
   \<and> (10 \<le> n \<longrightarrow>
        weight_function n =
          Inr (ramp (nat (5 * n div 10)) @ ramp (nat (3 * n div 10)) @ ramp (nat (2 * n div 10))))
   \<and> length (ramp k) = k
   \<and> (i < k \<longrightarrow> ramp k ! i = real i / real k \<and> 0 \<le> ramp k ! i \<and> ramp k ! i < 1)
   \<and> (case weight_function 20 of
         Inl e \<Rightarrow> False
       | Inr ws \<Rightarrow> length ws = 20 \<and> list_all (\<lambda>w. 0 \<le> w \<and> w < 1) ws \<and> drops ws = [9, 15])"
proof -
  have small: "0 \<le> n \<and> n < 10 \<longrightarrow> weight_function n = Inr (replicate (nat n) 0)"
    by (simp add: weight_function_def np_zeros_def)
  have large: "10 \<le> n \<longrightarrow>
        weight_function n =
          Inr (ramp (nat (5 * n div 10)) @ ramp (nat (3 * n div 10)) @ ramp (nat (2 * n div 10)))"
    by (simp add: weight_function_def int_truediv_def linspace_ramp)
  have len: "length (ramp k) = k"
    by (simp add: ramp_def)
  have val: "i < k \<longrightarrow> ramp k ! i = real i / real k \<and> 0 \<le> ramp k ! i \<and> ramp k ! i < 1"
    by (simp add: ramp_nth)
  have twenty: "(case weight_function 20 of
         Inl e \<Rightarrow> False
       | Inr ws \<Rightarrow> length ws = 20 \<and> list_all (\<lambda>w. 0 \<le> w \<and> w < 1) ws \<and> drops ws = [9, 15])"
    unfolding weight_function_20 ramp_20 by (simp add: drops_def upt_conv_Cons)
  show ?thesis
    using small large len val twenty by blast
qed

theorem weight_function_shape_witness:
  "weight_function 5 = Inr [0, 0, 0, 0, 0]
   \<and> weight_function 12 = Inr [0, 1/6, 2/6, 3/6, 4/6, 5/6, 0, 1/3, 2/3, 0, 1/2]
   \<and> ramp 4 ! 3 = 3 / 4"
  using weight_function_shape [of 5 4 3] weight_function_shape [of 12 4 3]
  by (simp add: ramp_def upt_conv_Cons numeral_eq_Suc)

text \<open>
  Claim C3. On the block \<open>[[1, 1], [1, 1]]\<close>, whose rows are constant,
  \<open>covariance_matrix\<close> and \<open>cross_covariance_matrix\<close> return the matrix of entries \<open>-1\<close>:
  they subtract the inner product 2 of the row-mean vectors from every entry. The
  covariance in the spec's words, with the outer product, is the zero matrix there. With
  blocks of 2 and 1 rows \<open>cross_covariance_matrix\<close> raises \<open>ValueError\<close>, where the spec's
  words give a \<open>2 \<times> 1\<close> matrix.
\<close>

theorem covariance_subtracts_inner_product:
  "covariance_matrix (NDArray 2 2 [[1, 1], [1, 1]]) None = Inr (NDArray 2 2 [[- 1, - 1], [- 1, - 1]])
   \<and> spec_covariance (NDArray 2 2 [[1, 1], [1, 1]]) None = Inr (NDArray 2 2 [[0, 0], [0, 0]])
   \<and> cross_covariance_matrix (NDArray 2 2 [[1, 1], [1, 1]]) (NDArray 2 2 [[1, 1], [1, 1]]) None
       = Inr (NDArray 2 2 [[- 1, - 1], [- 1, - 1]])
   \<and> spec_cross_covariance (NDArray 2 2 [[1, 1], [1, 1]]) (NDArray 2 2 [[1, 1], [1, 1]]) None
       = Inr (NDArray 2 2 [[0, 0], [0, 0]])
   \<and> cross_covariance_matrix (NDArray 2 2 [[1, 1], [1, 1]]) (NDArray 1 2 [[1, 1]]) None
       = Inl ValueError
   \<and> spec_cross_covariance (NDArray 2 2 [[1, 1], [1, 1]]) (NDArray 1 2 [[1, 1]]) None
       = Inr (NDArray 2 1 [[0], [0]])"
  by (simp add: covariance_matrix_def cross_covariance_matrix_def spec_covariance_def
        spec_cross_covariance_def ev1)

section \<open>Window retrieval and its index\<close>

lemmas rv = LCMVDataRetriever_init_def normal_def standard_normal_def alternating_rng_def
  two_samples_def fro_norm_def mul_scalar_def slice_cols_def

lemmas wv = get_data_window_def get_current_window_def getitem_def normalize_def
  np_mean_axis1_keepdims_def np_mean_axis1_def expand_dims_def np_var_axis1_def mean_def
  np_div_def mul_scalar_def

lemma weight_function_5: "weight_function 5 = Inr [0, 0, 0, 0, 0]"
  by (simp add: weight_function_def np_zeros_def numeral_eq_Suc)

lemma small_retriever_value:
  "small_retriever =
     Inr (\<lparr>r_data_window_params = two_samples, r_D = NDArray 1 2 [[1, - 1]],
           r_A_0 = NDArray 1 1 [[1]], r_Delta = NDArray 1 1 [[- 1]],
           r_noise = NDArray 1 2 [[1, - 1]], r_nb_filters = 1, r_nb_steering = 1,
           r_B = NDArray 1 1 [[1]], r_H = NDArray 1 1 [[1]], r_weights = [0, 0, 0, 0, 0]\<rparr>,
          alternating_rng\<lparr>drawn := 7\<rparr>)"
  unfolding small_retriever_def
  by (simp add: rv ev weight_function_5)

lemma getitem_out_of_range:
  "int (length a) \<le> i \<or> i < - int (length a) \<Longrightarrow> getitem a i = Inl IndexError"
  by (auto simp: getitem_def Let_def)

lemma getitem_negative:
  "- int (length a) \<le> i \<Longrightarrow> i < 0 \<Longrightarrow> getitem a i = getitem a (i + int (length a))"
  by (simp add: getitem_def Let_def)

lemma weight_function_length:
  assumes "weight_function n = Inr ws"
  shows "int (length ws) \<le> n"
proof (cases "n < 10")
  case True
  then show ?thesis
    using assms by (auto simp: weight_function_def np_zeros_def split: if_splits)
next
  case False
  then have "ws = ramp (nat (5 * n div 10)) @ ramp (nat (3 * n div 10)) @ ramp (nat (2 * n div 10))"
    using assms by (simp add: weight_function_def int_truediv_def linspace_ramp)
  then have "int (length ws) = int (nat (5 * n div 10)) + int (nat (3 * n div 10)) + int (nat (2 * n div 10))"
    by (simp add: ramp_def)
  moreover have "0 \<le> 5 * n div 10" "0 \<le> 3 * n div 10" "0 \<le> 2 * n div 10"
    using False by simp_all
  moreover have "5 * n div 10 + 3 * n div 10 + 2 * n div 10 \<le> n"
    by arith
  ultimately show ?thesis by simp
qed

text \<open>
  Claim C4, as the code has it. Let a retriever hold \<open>n\<close> drift weights. Every
  \<open>window_id \<ge> n\<close> and every \<open>window_id < -n\<close> is refused with \<open>IndexError\<close>, and so is
  every \<open>window_id \<ge> window_count\<close> or \<open>< -window_count\<close>, since the weights of
  \<open>window_count\<close> windows are at most \<open>window_count\<close> many. A \<open>window_id\<close> in \<open>[-n, 0)\<close>
  is not refused: it gives the window of index \<open>window_id + n\<close>.
\<close>

theorem get_data_window_bounds:
  "(int (length (r_weights r)) \<le> window_id \<or> window_id < - int (length (r_weights r))
      \<longrightarrow> get_data_window r window_id = Inl IndexError)
   \<and> (weight_function nb_windows = Inr (r_weights r)
        \<and> (nb_windows \<le> window_id \<or> window_id < - nb_windows)
      \<longrightarrow> get_data_window r window_id = Inl IndexError)
   \<and> (- int (length (r_weights r)) \<le> window_id \<and> window_id < 0
      \<longrightarrow> get_data_window r window_id
            = get_data_window r (window_id + int (length (r_weights r))))"
proof -
  have 1: "get_data_window r window_id = Inl IndexError"
    if "int (length (r_weights r)) \<le> window_id \<or> window_id < - int (length (r_weights r))"
    using getitem_out_of_range [OF that] by (simp add: get_data_window_def)
  have 2: "get_data_window r window_id = Inl IndexError"
    if "weight_function nb_windows = Inr (r_weights r)"
      "nb_windows \<le> window_id \<or> window_id < - nb_windows"
  proof -
    have "int (length (r_weights r)) \<le> nb_windows"
      using that(1) by (rule weight_function_length)
    with that(2) show ?thesis
      by (intro 1) linarith
  qed
  have 3: "get_data_window r window_id = get_data_window r (window_id + int (length (r_weights r)))"
    if "- int (length (r_weights r)) \<le> window_id" "window_id < 0"
    using getitem_negative [OF that] by (simp add: get_data_window_def)
  show ?thesis
    using 1 2 3 by blast
qed

theorem get_data_window_bounds_witness:
  "small_window 5 = Inl IndexError \<and> small_window (- 6) = Inl IndexError
   \<and> small_window (- 5) = small_window 0"
  using get_data_window_bounds [of _ 5 5] get_data_window_bounds [of _ "- 6" 5]
    get_data_window_bounds [of _ "- 5" 5]
  by (simp add: small_window_def small_retriever_value weight_function_5)

text \<open>
  Claim C4 as stated fails: the retriever constructed for 5 windows returns for
  \<open>window_id = -1\<close>, which lies outside \<open>[0, 5)\<close>, the window of index 4 and no error.
\<close>

theorem negative_window_id_wraps:
  "small_window (- 1) =
     Inr \<lparr>fused_signals = [NDArray 1 2 [[1, - 1]]], fused_constants = [NDArray 1 1 [[1]]],
          global_parameters = [NDArray 1 1 [[1]]]\<rparr>
   \<and> small_window (- 1) = small_window 4
   \<and> small_window (- 1) \<noteq> Inl IndexError"
  by (simp add: small_window_def small_retriever_value wv ev)

section \<open>The legacy module against the canonical one\<close>

lemmas lrv = LegacyLCMVDataRetriever_init_def normal_def standard_normal_def alternating_rng_def
  fro_norm_def mul_scalar_def slice_cols_def

lemma legacy_weight_function_5: "legacy_weight_function 5 = Inr [0, 1 / 2, 0, 0]"
  by (simp add: legacy_weight_function_def linspace_0_1_def int_truediv_def upt_conv_Cons)

lemma small_legacy_retriever_value:
  "small_legacy_retriever =
     Inr (\<lparr>l_D = NDArray 1 2 [[1, - 1]],
           l_A_0 = NDArray 1 1 [[1]], l_Delta = NDArray 1 1 [[- 1]],
           l_noise = NDArray 1 2 [[1, - 1]], l_nb_filters = 1, l_nb_steering = 1,
           l_B = NDArray 1 1 [[1]], l_H = NDArray 1 1 [[1]], l_weights = [0, 1 / 2, 0, 0]\<rparr>,
          alternating_rng\<lparr>drawn := 7\<rparr>)"
  unfolding small_legacy_retriever_def
  by (simp add: lrv ev legacy_weight_function_5)

lemma legacy_weight_function_eq:
  "10 \<le> nb_windows \<Longrightarrow> legacy_weight_function nb_windows = weight_function nb_windows"
  by (simp add: legacy_weight_function_def weight_function_def)

lemma get_current_window_as_legacy:
  "get_current_window (as_legacy r) window_id = get_data_window r window_id"
  by (simp add: get_current_window_def get_data_window_def as_legacy_def)

lemma legacy_init_eq:
  assumes "10 \<le> nb_windows"
  shows "LegacyLCMVDataRetriever_init (window_length dwp) nb_sensors nb_sources nb_windows rng
           nb_filters nb_steering signal_var noise_var mixture_var diff_var
         = ebind (LCMVDataRetriever_init dwp nb_sensors nb_sources nb_windows rng
                    nb_filters nb_steering signal_var noise_var mixture_var diff_var)
             (\<lambda>(r, g). Inr (as_legacy r, g))"
  unfolding LegacyLCMVDataRetriever_init_def LCMVDataRetriever_init_def Let_def
    legacy_weight_function_eq [OF assms]
  by (simp add: ebind_def as_legacy_def split: sum.splits prod.splits)

text \<open>
  Claim C6, as the code has it. For 10 windows or more, and the sample length passed as
  \<open>nb_samples\<close> to the legacy constructor and as \<open>window_length\<close> to the canonical one, the
  legacy constructor fails as the canonical one fails or returns the state the canonical
  one returns, with the generator left alike; the two states hold the same weights; and
  on the same state \<open>get_current_window\<close> returns for every index what
  \<open>get_data_window\<close> returns.
\<close>

theorem legacy_agrees_from_10_windows:
  "(10 \<le> nb_windows \<longrightarrow>
      LegacyLCMVDataRetriever_init (window_length dwp) nb_sensors nb_sources nb_windows rng
          nb_filters nb_steering signal_var noise_var mixture_var diff_var
        = ebind (LCMVDataRetriever_init dwp nb_sensors nb_sources nb_windows rng
                   nb_filters nb_steering signal_var noise_var mixture_var diff_var)
            (\<lambda>(r, g). Inr (as_legacy r, g)))
   \<and> l_weights (as_legacy r) = r_weights r
   \<and> get_current_window (as_legacy r) window_id = get_data_window r window_id"
  using legacy_init_eq get_current_window_as_legacy by (simp add: as_legacy_def)

lemma weight_function_10:
  "weight_function 10 = Inr [0, 1 / 5, 2 / 5, 3 / 5, 4 / 5, 0, 1 / 3, 2 / 3, 0, 1 / 2]"
  by (simp add: weight_function_def linspace_0_1_def int_truediv_def upt_conv_Cons)

lemma ten_window_retriever:
  "LCMVDataRetriever_init two_samples 1 1 10 alternating_rng 1 None 1 1 1 1 =
     Inr (\<lparr>r_data_window_params = two_samples, r_D = NDArray 1 2 [[1, - 1]],
           r_A_0 = NDArray 1 1 [[1]], r_Delta = NDArray 1 1 [[- 1]],
           r_noise = NDArray 1 2 [[1, - 1]], r_nb_filters = 1, r_nb_steering = 1,
           r_B = NDArray 1 1 [[1]], r_H = NDArray 1 1 [[1]],
           r_weights = [0, 1 / 5, 2 / 5, 3 / 5, 4 / 5, 0, 1 / 3, 2 / 3, 0, 1 / 2]\<rparr>,
          alternating_rng\<lparr>drawn := 7\<rparr>)"
  by (simp add: rv ev weight_function_10)

theorem legacy_agrees_from_10_windows_witness:
  "LegacyLCMVDataRetriever_init 2 1 1 10 alternating_rng 1 None 1 1 1 1 =
     Inr (\<lparr>l_D = NDArray 1 2 [[1, - 1]],
           l_A_0 = NDArray 1 1 [[1]], l_Delta = NDArray 1 1 [[- 1]],
           l_noise = NDArray 1 2 [[1, - 1]], l_nb_filters = 1, l_nb_steering = 1,
           l_B = NDArray 1 1 [[1]], l_H = NDArray 1 1 [[1]],
           l_weights = [0, 1 / 5, 2 / 5, 3 / 5, 4 / 5, 0, 1 / 3, 2 / 3, 0, 1 / 2]\<rparr>,
          alternating_rng\<lparr>drawn := 7\<rparr>)"
proof -
  have wl: "window_length two_samples = 2"
    by (simp add: two_samples_def)
  show ?thesis
    using legacy_agrees_from_10_windows [of 10 two_samples 1 1 alternating_rng 1 None 1 1 1 1]
    unfolding wl by (simp add: ten_window_retriever as_legacy_def)
qed

text \<open>
  Claim C6 as stated fails: constructed with the same arguments for 5 windows, the
  canonical retriever stores five zero weights and the legacy retriever the four weights
  \<open>0, 1/2, 0, 0\<close>; for the window index 4 the canonical retriever returns a window and
  the legacy retriever raises \<open>IndexError\<close>.
\<close>

theorem legacy_differs_below_10_windows:
  "small_weights = Inr [0, 0, 0, 0, 0]
   \<and> small_legacy_weights = Inr [0, 1 / 2, 0, 0]
   \<and> small_window 4 =
       Inr \<lparr>fused_signals = [NDArray 1 2 [[1, - 1]]], fused_constants = [NDArray 1 1 [[1]]],
            global_parameters = [NDArray 1 1 [[1]]]\<rparr>
   \<and> small_legacy_window 4 = Inl IndexError"
  by (simp add: small_weights_def small_legacy_weights_def small_window_def
      small_legacy_window_def small_retriever_value small_legacy_retriever_value wv ev)

section \<open>Determinism of the construction\<close>

lemma ebind_rel:
  assumes "rel_sum (=) R m1 m2"
    and "\<And>x y. R x y \<Longrightarrow> rel_sum (=) S (f x) (g y)"
  shows "rel_sum (=) S (ebind m1 f) (ebind m2 g)"
  using assms by (cases m1; cases m2) simp_all

lemma standard_normal_rel:
  assumes "same_stream g1 g2"
  shows "rel_sum (=) (rel_prod (=) same_stream) (standard_normal g1 shape) (standard_normal g2 shape)"
proof (cases shape)
  case (Pair r c)
  have arr: "mk (nat r) (nat c) (\<lambda>i j. variates g1 (drawn g1 + i * nat c + j))
           = mk (nat r) (nat c) (\<lambda>i j. variates g2 (drawn g2 + i * nat c + j))"
    using assms by (intro mk_cong) (simp add: same_stream_def add.assoc)
  have gen: "same_stream (g1\<lparr>drawn := drawn g1 + nat r * nat c\<rparr>)
                         (g2\<lparr>drawn := drawn g2 + nat r * nat c\<rparr>)"
    using assms by (simp add: same_stream_def add.assoc)
  show ?thesis
    using arr gen by (simp add: standard_normal_def Pair)
qed

lemma normal_rel:
  assumes "same_stream g1 g2"
  shows "rel_sum (=) (rel_prod (=) same_stream) (normal g1 loc scale shape) (normal g2 loc scale shape)"
  unfolding normal_def
  by (rule ebind_rel [OF standard_normal_rel [OF assms]]) auto

lemma ebind_rel_pair:
  assumes "rel_sum (=) (rel_prod (=) same_stream) m1 m2"
    and "\<And>x g1 g2. same_stream g1 g2 \<Longrightarrow> rel_sum (=) S (f x g1) (h x g2)"
  shows "rel_sum (=) S (ebind m1 (\<lambda>(x, g). f x g)) (ebind m2 (\<lambda>(x, g). h x g))"
  using assms by (cases m1; cases m2) auto

lemma init_rel:
  assumes "same_stream g1 g2"
  shows "rel_sum (=) (rel_prod (=) same_stream)
     (LCMVDataRetriever_init dwp nb_sensors nb_sources nb_windows g1 nb_filters nb_steering
        signal_var noise_var mixture_var diff_var)
     (LCMVDataRetriever_init dwp nb_sensors nb_sources nb_windows g2 nb_filters nb_steering
        signal_var noise_var mixture_var diff_var)"
  unfolding LCMVDataRetriever_init_def Let_def
  apply (rule ebind_rel_pair [OF normal_rel [OF assms]])
  apply (rule ebind_rel_pair [OF normal_rel], assumption)
  apply (rule ebind_rel_pair [OF normal_rel], assumption)
  apply (rule ebind_rel_pair [OF normal_rel], assumption)
  apply (rule ebind_rel_pair [OF standard_normal_rel], assumption)
  apply (rule ebind_rel [where R = "(=)"])
   apply (simp add: sum.rel_eq)
  apply simp
  done

text \<open>
  Claim C8. Two generators are seeded alike when they yield the same variates from where
  they stand. Constructed from two such generators with the same hyperparameters, the
  two constructions fail alike or return the same retriever state, hence the same
  \<open>ProblemInputs\<close> (or the same error) for every \<open>window_id\<close>, and leave the two generators
  seeded alike. The retriever keeps no reference to the generator and
  \<open>get_data_window\<close> reads the retriever alone: a window is a function of the variates,
  the hyperparameters and the window index.
\<close>

theorem window_generation_deterministic:
  assumes "same_stream g1 g2"
  shows "(LCMVDataRetriever_init dwp nb_sensors nb_sources nb_windows g1 nb_filters nb_steering
            signal_var noise_var mixture_var diff_var = Inl e
          \<longleftrightarrow> LCMVDataRetriever_init dwp nb_sensors nb_sources nb_windows g2 nb_filters nb_steering
            signal_var noise_var mixture_var diff_var = Inl e)
       \<and> (LCMVDataRetriever_init dwp nb_sensors nb_sources nb_windows g1 nb_filters nb_steering
            signal_var noise_var mixture_var diff_var = Inr (r1, g1')
          \<and> LCMVDataRetriever_init dwp nb_sensors nb_sources nb_windows g2 nb_filters nb_steering
            signal_var noise_var mixture_var diff_var = Inr (r2, g2')
          \<longrightarrow> r1 = r2 \<and> same_stream g1' g2'
              \<and> get_data_window r1 window_id = get_data_window r2 window_id)"
  using init_rel [OF assms, of dwp nb_sensors nb_sources nb_windows nb_filters nb_steering
      signal_var noise_var mixture_var diff_var]
  by (auto elim: rel_sum.cases)

lemma shifted_retriever_value:
  "LCMVDataRetriever_init two_samples 1 1 5 shifted_rng 1 None 1 1 1 1 =
     Inr (\<lparr>r_data_window_params = two_samples, r_D = NDArray 1 2 [[1, - 1]],
           r_A_0 = NDArray 1 1 [[1]], r_Delta = NDArray 1 1 [[- 1]],
           r_noise = NDArray 1 2 [[1, - 1]], r_nb_filters = 1, r_nb_steering = 1,
           r_B = NDArray 1 1 [[1]], r_H = NDArray 1 1 [[1]], r_weights = [0, 0, 0, 0, 0]\<rparr>,
          shifted_rng\<lparr>drawn := 8\<rparr>)"
  by (simp add: LCMVDataRetriever_init_def normal_def standard_normal_def shifted_rng_def
      two_samples_def fro_norm_def mul_scalar_def slice_cols_def ev weight_function_5)

theorem window_generation_deterministic_witness:
  "same_stream alternating_rng shifted_rng \<and> small_window 3 = shifted_window 3"
proof -
  have s: "same_stream alternating_rng shifted_rng"
    by (simp add: same_stream_def alternating_rng_def shifted_rng_def)
  obtain r1 g1' where 1: "LCMVDataRetriever_init two_samples 1 1 5 alternating_rng 1 None 1 1 1 1 = Inr (r1, g1')"
    using small_retriever_value unfolding small_retriever_def by blast
  obtain r2 g2' where 2: "LCMVDataRetriever_init two_samples 1 1 5 shifted_rng 1 None 1 1 1 1 = Inr (r2, g2')"
    using shifted_retriever_value by blast
  have "get_data_window r1 3 = get_data_window r2 3"
    using window_generation_deterministic [OF s, of two_samples 1 1 5 1 None 1 1 1 1 _ r1 g1' r2 g2' 3] 1 2
    by blast
  then show ?thesis
    using s by (simp add: small_window_def small_retriever_def shifted_window_def 1 2)
qed

section \<open>Shapes of the estimator and of the steering matrix\<close>

lemma ebind_eq_Inr: "ebind m f = Inr y \<longleftrightarrow> (\<exists>x. m = Inr x \<and> f x = Inr y)"
  by (cases m) simp_all

lemma matmul_eq_Inr: "matmul A B = Inr C \<longleftrightarrow> ncols A = nrows B \<and> C = dot A B"
  by (auto simp: matmul_def)

lemma LCMV_solve_ncols:
  assumes "LCMV_solve linalg_inv self inputs save_solution = Inr (X, self')"
    and "global_parameters inputs = H # Hs"
  shows "ncols X = nrows H"
  using assms unfolding LCMV_solve_def
  by (auto simp: ebind_eq_Inr matmul_eq_Inr)

lemma MMSE_solve_ncols:
  assumes "MMSE_solve linalg_inv self inputs save_solution = Inr (X, self')"
    and "global_parameters inputs = D # Ds"
  shows "ncols X = nrows D"
  using assms unfolding MMSE_solve_def cross_correlation_matrix_def Let_def
  by (auto simp: ebind_eq_Inr matmul_eq_Inr div_scalar_def)

text \<open>
  Claim C5, as the code has it. \<open>solve\<close> does not read the configured filter count
  \<open>Q\<close>. Whenever it returns, the estimator has as many columns as the constraint target
  \<open>H\<close> (LCMV) or the target block \<open>D\<close> (MMSE) has rows; it has exactly \<open>Q\<close> columns if
  and only if that matrix has \<open>Q\<close> rows.
\<close>

theorem solve_column_count:
  "(LCMV_solve linalg_inv self inputs save_solution = Inr (X, self')
      \<and> global_parameters inputs = H # Hs
    \<longrightarrow> ncols X = nrows H
        \<and> (int (ncols X) = p_nb_filters self \<longleftrightarrow> int (nrows H) = p_nb_filters self))
   \<and> (MMSE_solve linalg_inv self inputs save_solution = Inr (X', self'')
      \<and> global_parameters inputs = D # Ds
    \<longrightarrow> ncols X' = nrows D
        \<and> (int (ncols X') = p_nb_filters self \<longleftrightarrow> int (nrows D) = p_nb_filters self))"
proof -
  have "ncols X = nrows H"
    if "LCMV_solve linalg_inv self inputs save_solution = Inr (X, self')"
      "global_parameters inputs = H # Hs"
    using that by (rule LCMV_solve_ncols)
  moreover have "ncols X' = nrows D"
    if "MMSE_solve linalg_inv self inputs save_solution = Inr (X', self'')"
      "global_parameters inputs = D # Ds"
    using that by (rule MMSE_solve_ncols)
  ultimately show ?thesis by simp
qed

theorem solve_column_count_witness:
  "LCMV_solve adjugate_inv \<lparr>p_nb_filters = 1, p_X_star = None\<rparr>
     \<lparr>fused_signals = [NDArray 2 2 [[1, 1], [0, 2]]], fused_constants = [NDArray 2 1 [[1], [0]]],
      global_parameters = [NDArray 1 1 [[3]]]\<rparr> False
     = Inr (NDArray 2 1 [[3], [- 3 / 2]], \<lparr>p_nb_filters = 1, p_X_star = None\<rparr>)
   \<and> MMSE_solve adjugate_inv \<lparr>p_nb_filters = 1, p_X_star = None\<rparr>
     \<lparr>fused_signals = [NDArray 2 2 [[1, 1], [0, 2]]], fused_constants = [NDArray 2 1 [[1], [0]]],
      global_parameters = [NDArray 1 2 [[1, 2]]]\<rparr> True
     = Inr (NDArray 2 1 [[1], [1 / 2]],
            \<lparr>p_nb_filters = 1, p_X_star = Some (NDArray 2 1 [[1], [1 / 2]])\<rparr>)
   \<and> int (ncols (NDArray 2 1 [[3], [- 3 / 2]])) = p_nb_filters \<lparr>p_nb_filters = 1, p_X_star = None\<rparr>
   \<and> int (ncols (NDArray 2 1 [[1], [1 / 2]])) = p_nb_filters \<lparr>p_nb_filters = 1, p_X_star = None\<rparr>"
proof -
  let ?p = "\<lparr>p_nb_filters = 1, p_X_star = None\<rparr>"
  let ?Y = "NDArray 2 2 [[1, 1], [0, 2]]" and ?B = "NDArray 2 1 [[1], [0]]"
  let ?H = "NDArray 1 1 [[3]]" and ?D = "NDArray 1 2 [[1, 2]]"
  let ?i1 = "\<lparr>fused_signals = [?Y], fused_constants = [?B], global_parameters = [?H]\<rparr>"
  let ?i2 = "\<lparr>fused_signals = [?Y], fused_constants = [?B], global_parameters = [?D]\<rparr>"
  have 1: "LCMV_solve adjugate_inv ?p ?i1 False = Inr (NDArray 2 1 [[3], [- 3 / 2]], ?p)"
    by (simp add: LCMV_solve_def ev)
  have 2: "MMSE_solve adjugate_inv ?p ?i2 True
      = Inr (NDArray 2 1 [[1], [1 / 2]], \<lparr>p_nb_filters = 1, p_X_star = Some (NDArray 2 1 [[1], [1 / 2]])\<rparr>)"
    by (simp add: MMSE_solve_def ev cross_correlation_matrix_def)
  have h1: "global_parameters ?i1 = ?H # []" "int (nrows ?H) = p_nb_filters ?p"
    and h2: "global_parameters ?i2 = ?D # []" "int (nrows ?D) = p_nb_filters ?p"
    by simp_all
  have 3: "int (ncols (NDArray 2 1 [[3], [- 3 / 2]])) = p_nb_filters ?p"
    using solve_column_count [of adjugate_inv ?p ?i1 False _ ?p ?H "[]"] 1 h1 by blast
  have 4: "int (ncols (NDArray 2 1 [[1], [1 / 2]])) = p_nb_filters ?p"
    using solve_column_count [of adjugate_inv ?p ?i2 True _ _ _ _ "NDArray 2 1 [[1], [1 / 2]]" _ ?D "[]"]
      2 h2 by blast
  show ?thesis
    using 1 2 3 4 by blast
qed

text \<open>
  Claim C5 as stated fails: on inputs whose \<open>H\<close>, respectively \<open>D\<close>, has one row, the
  LCMV problem and the MMSE problem configured with 5 filters return, without an error,
  an estimator of shape \<open>2 \<times> 1\<close>: one column, not five.
\<close>

theorem solve_ignores_filter_count:
  "LCMV_solve adjugate_inv \<lparr>p_nb_filters = 5, p_X_star = None\<rparr>
     \<lparr>fused_signals = [NDArray 2 2 [[1, 1], [0, 2]]], fused_constants = [NDArray 2 1 [[1], [0]]],
      global_parameters = [NDArray 1 1 [[3]]]\<rparr> False
     = Inr (NDArray 2 1 [[3], [- 3 / 2]], \<lparr>p_nb_filters = 5, p_X_star = None\<rparr>)
   \<and> MMSE_solve adjugate_inv \<lparr>p_nb_filters = 5, p_X_star = None\<rparr>
     \<lparr>fused_signals = [NDArray 2 2 [[1, 1], [0, 2]]], fused_constants = [],
      global_parameters = [NDArray 1 2 [[1, 2]]]\<rparr> False
     = Inr (NDArray 2 1 [[1], [1 / 2]], \<lparr>p_nb_filters = 5, p_X_star = None\<rparr>)
   \<and> int (ncols (NDArray 2 1 [[3], [- 3 / 2]])) \<noteq> p_nb_filters \<lparr>p_nb_filters = 5, p_X_star = None\<rparr>
   \<and> int (ncols (NDArray 2 1 [[1], [1 / 2]])) \<noteq> p_nb_filters \<lparr>p_nb_filters = 5, p_X_star = None\<rparr>"
  by (simp add: LCMV_solve_def MMSE_solve_def ev cross_correlation_matrix_def)

section \<open>The constraints a problem hands out\<close>

text \<open>
  Claim C9, as the code has it. For inputs that hold a steering matrix \<open>B\<close> and a
  constraint target \<open>H\<close>, the LCMV problem returns the pair of the function
  \<open>X \<mapsto> X.T @ B - H\<close> and \<open>None\<close>. The MMSE problem, called with keyword arguments,
  returns \<open>None\<close> alone, not a pair.
\<close>

theorem get_problem_constraints_values:
  "(fused_constants inputs = B # Bs \<and> global_parameters inputs = H # Hs \<longrightarrow>
      LCMV_get_problem_constraints inputs = Inr (Some (Some (equality_constraint B H), None))
      \<and> equality_constraint B H X = ebind (matmul (np_T X) B) (\<lambda>XtB. np_sub XtB H))
   \<and> MMSE_get_problem_constraints kwargs = None"
  by (simp add: LCMV_get_problem_constraints_def equality_constraint_def
      MMSE_get_problem_constraints_def)

theorem get_problem_constraints_values_witness:
  "LCMV_get_problem_constraints
     \<lparr>fused_signals = [NDArray 2 2 [[1, 1], [0, 2]]], fused_constants = [NDArray 2 1 [[1], [0]]],
      global_parameters = [NDArray 1 1 [[3]]]\<rparr>
   = Inr (Some (Some (equality_constraint (NDArray 2 1 [[1], [0]]) (NDArray 1 1 [[3]])), None))
   \<and> equality_constraint (NDArray 2 1 [[1], [0]]) (NDArray 1 1 [[3]]) (NDArray 2 1 [[1], [1]])
     = Inr (NDArray 1 1 [[- 2]])"
  using get_problem_constraints_values
    [of "\<lparr>fused_signals = [NDArray 2 2 [[1, 1], [0, 2]]],
          fused_constants = [NDArray 2 1 [[1], [0]]], global_parameters = [NDArray 1 1 [[3]]]\<rparr>"
        "NDArray 2 1 [[1], [0]]" "[]" "NDArray 1 1 [[3]]" "[]" "NDArray 2 1 [[1], [1]]"]
  by (simp add: ev)

text \<open>
  Claim C9 as stated fails for the MMSE problem: what it returns is not the pair
  \<open>(None, None)\<close>.
\<close>

theorem MMSE_constraints_not_a_pair:
  "MMSE_get_problem_constraints [] \<noteq> Some (None, None)"
  by (simp add: MMSE_get_problem_constraints_def)

section \<open>The steering matrix when \<open>nb_steering\<close> is left out\<close>

lemma standard_normal_Inr:
  assumes "standard_normal rng (r, c) = Inr (Z, rng')"
  shows "0 \<le> r" "0 \<le> c" "nrows Z = nat r" "ncols Z = nat c" "wf_array Z"
  using assms by (auto simp: standard_normal_def split: if_splits)

lemma normal_Inr:
  assumes "normal rng loc scale (r, c) = Inr (Z, rng')"
  shows "0 \<le> r" "0 \<le> c" "nrows Z = nat r" "ncols Z = nat c" "wf_array Z"
  using assms by (auto simp: normal_def ebind_eq_Inr dest: standard_normal_Inr)

lemma slice_cols_None: "wf_array A \<Longrightarrow> slice_cols A None = A"
  by (simp add: slice_cols_def mk_entry)

lemma init_None_fields:
  assumes "LCMVDataRetriever_init dwp nb_sensors nb_sources nb_windows rng nb_filters None
             signal_var noise_var mixture_var diff_var = Inr (r, rng')"
  shows "0 \<le> nb_sources" "0 \<le> nb_filters"
    "r_B r = r_A_0 r" "r_nb_steering r = nb_filters"
    "ncols (r_B r) = nat nb_sources"
    "nrows (r_H r) = nat nb_filters" "ncols (r_H r) = nat nb_filters"
proof -
  from assms obtain D g1 A_0 g2 Delta noise g4 H ws where
    D: "normal rng 0 (sqrt signal_var) (nb_sources, window_length dwp) = Inr (D, g1)"
    and A_0: "normal g1 0 (sqrt mixture_var) (nb_sensors, nb_sources) = Inr (A_0, g2)"
    and H: "standard_normal g4 (nb_filters, nb_filters) = Inr (H, rng')"
    and r: "r = \<lparr>r_data_window_params = dwp, r_D = D, r_A_0 = A_0,
           r_Delta = div_scalar (mul_scalar (mul_scalar Delta (fro_norm A_0)) diff_var)
                       (fro_norm Delta),
           r_noise = noise, r_nb_filters = nb_filters, r_nb_steering = nb_filters,
           r_B = slice_cols A_0 None, r_H = H, r_weights = ws\<rparr>"
    unfolding LCMVDataRetriever_init_def Let_def
    by (auto simp: ebind_eq_Inr)
  note a = normal_Inr [OF A_0] and h = standard_normal_Inr [OF H]
  show "0 \<le> nb_sources" "0 \<le> nb_filters"
    using a h by simp_all
  show "r_B r = r_A_0 r" "r_nb_steering r = nb_filters"
    using a by (simp_all add: r slice_cols_None)
  show "ncols (r_B r) = nat nb_sources"
    using a by (simp add: r slice_cols_None)
  show "nrows (r_H r) = nat nb_filters" "ncols (r_H r) = nat nb_filters"
    using h by (simp_all add: r)
qed

lemma get_data_window_Inr:
  assumes "get_data_window r window_id = Inr inputs"
  shows "\<exists>Y. fused_signals inputs = [Y]" "fused_constants inputs = [r_B r]"
    "global_parameters inputs = [r_H r]"
  using assms unfolding get_data_window_def by (auto simp: ebind_eq_Inr)

lemma autocorrelation_Inr: "\<exists>Ryy. autocorrelation_matrix Y normalizer = Inr Ryy"
  unfolding autocorrelation_value by blast

lemma LCMV_solve_mismatch:
  assumes "fused_signals inputs = Y # Ys" "fused_constants inputs = B # Bs"
    "global_parameters inputs = H # Hs"
    and "ncols B \<noteq> ncols H" "shape_preserving linalg_inv"
  shows "\<exists>e. LCMV_solve linalg_inv self inputs save_solution = Inl e
           \<and> (e = ValueError \<or> (\<exists>A. linalg_inv A = Inl e))"
proof -
  obtain Ryy where Ryy: "autocorrelation_matrix Y None = Inr Ryy"
    using autocorrelation_Inr by blast
  show ?thesis
  proof (cases "linalg_inv Ryy")
    case (Inl e)
    then show ?thesis
      by (auto simp: LCMV_solve_def assms(1-3) Ryy)
  next
    case (Inr Ri)
    show ?thesis
    proof (cases "ncols Ri = nrows B")
      case False
      then show ?thesis
        by (simp add: LCMV_solve_def assms(1-3) Ryy Inr matmul_def)
    next
      case True
      show ?thesis
      proof (cases "linalg_inv (dot (dot (np_T B) Ri) B)")
        case (Inl e)
        then show ?thesis
          using True by (auto simp: LCMV_solve_def assms(1-3) Ryy Inr matmul_def)
      next
        case Gi: (Inr Gi)
        from assms(5) Gi have "nrows Gi = ncols B" "ncols Gi = ncols B"
          unfolding shape_preserving_def by fastforce+
        then show ?thesis
          using True assms(4) by (simp add: LCMV_solve_def assms(1-3) Ryy Inr Gi matmul_def)
      qed
    qed
  qed
qed


lemma shape_preserving_adjugate_inv: "shape_preserving adjugate_inv"
  by (auto simp: shape_preserving_def adjugate_inv_def Let_def split: if_splits)

text \<open>
  Claim C10. When the constructor succeeds with \<open>nb_steering\<close> left out, the stored
  steering matrix \<open>B\<close> is the whole of \<open>A_0\<close> and has \<open>nb_sources\<close> columns, the stored
  \<open>nb_steering\<close> is \<open>nb_filters\<close>, and \<open>H\<close> is \<open>nb_filters \<times> nb_filters\<close>. If
  \<open>nb_sources \<noteq> nb_filters\<close>, then \<open>B\<close> and \<open>H\<close> differ in their column counts and
  \<open>LCMVProblem.solve\<close> fails on every window the retriever produces, whatever inverse
  routine it runs with, as long as that returns matrices of the shape of its argument:
  with the \<open>ValueError\<close> of the shape mismatch at the product with \<open>H.T\<close>, unless an
  inversion has already failed.
\<close>

theorem nb_steering_omitted_mismatch:
  assumes "LCMVDataRetriever_init dwp nb_sensors nb_sources nb_windows rng nb_filters None
             signal_var noise_var mixture_var diff_var = Inr (r, rng')"
  shows "r_B r = r_A_0 r \<and> int (ncols (r_B r)) = nb_sources \<and> r_nb_steering r = nb_filters
     \<and> int (nrows (r_H r)) = nb_filters \<and> int (ncols (r_H r)) = nb_filters
     \<and> (nb_sources \<noteq> nb_filters \<longrightarrow>
          ncols (r_B r) \<noteq> ncols (r_H r)
          \<and> (get_data_window r window_id = Inr inputs \<and> shape_preserving linalg_inv \<longrightarrow>
               (\<exists>e. LCMV_solve linalg_inv self inputs save_solution = Inl e
                  \<and> (e = ValueError \<or> (\<exists>A. linalg_inv A = Inl e)))))"
proof -
  note f = init_None_fields [OF assms]
  have shapes: "r_B r = r_A_0 r \<and> int (ncols (r_B r)) = nb_sources \<and> r_nb_steering r = nb_filters
     \<and> int (nrows (r_H r)) = nb_filters \<and> int (ncols (r_H r)) = nb_filters"
    using f by simp
  have differ: "ncols (r_B r) \<noteq> ncols (r_H r)" if "nb_sources \<noteq> nb_filters"
    using f that by simp
  have fails: "\<exists>e. LCMV_solve linalg_inv self inputs save_solution = Inl e
                  \<and> (e = ValueError \<or> (\<exists>A. linalg_inv A = Inl e))"
    if "nb_sources \<noteq> nb_filters" "get_data_window r window_id = Inr inputs"
      "shape_preserving linalg_inv"
  proof -
    from get_data_window_Inr [OF that(2)] obtain Y where
      "fused_signals inputs = Y # []" "fused_constants inputs = r_B r # []"
      "global_parameters inputs = r_H r # []"
      by auto
    then show ?thesis
      using differ [OF that(1)] that(3) by (rule LCMV_solve_mismatch)
  qed
  show ?thesis
    using shapes differ fails by blast
qed

lemma weight_function_1: "weight_function 1 = Inr [0]"
  by (simp add: weight_function_def np_zeros_def)

lemma mismatched_retriever_value:
  "mismatched_retriever =
     Inr (\<lparr>r_data_window_params = two_samples, r_D = NDArray 1 2 [[1, - 1]],
           r_A_0 = NDArray 1 1 [[1]], r_Delta = NDArray 1 1 [[- 1]],
           r_noise = NDArray 1 2 [[1, - 1]], r_nb_filters = 2, r_nb_steering = 2,
           r_B = NDArray 1 1 [[1]], r_H = NDArray 2 2 [[1, - 1], [1, - 1]], r_weights = [0]\<rparr>,
          alternating_rng\<lparr>drawn := 10\<rparr>)"
  unfolding mismatched_retriever_def
  by (simp add: rv ev weight_function_1)

lemma mismatched_window_value:
  "get_data_window \<lparr>r_data_window_params = two_samples, r_D = NDArray 1 2 [[1, - 1]],
           r_A_0 = NDArray 1 1 [[1]], r_Delta = NDArray 1 1 [[- 1]],
           r_noise = NDArray 1 2 [[1, - 1]], r_nb_filters = 2, r_nb_steering = 2,
           r_B = NDArray 1 1 [[1]], r_H = NDArray 2 2 [[1, - 1], [1, - 1]], r_weights = [0]\<rparr> 0
   = Inr \<lparr>fused_signals = [NDArray 1 2 [[1, - 1]]], fused_constants = [NDArray 1 1 [[1]]],
          global_parameters = [NDArray 2 2 [[1, - 1], [1, - 1]]]\<rparr>"
  by (simp add: wv ev)

lemma mismatched_solve_value: "mismatched_solve = Inl ValueError"
proof -
  have "mismatched_solve
      = LCMV_solve adjugate_inv \<lparr>p_nb_filters = 2, p_X_star = None\<rparr>
          \<lparr>fused_signals = [NDArray 1 2 [[1, - 1]]], fused_constants = [NDArray 1 1 [[1]]],
           global_parameters = [NDArray 2 2 [[1, - 1], [1, - 1]]]\<rparr> False"
    unfolding mismatched_solve_def mismatched_retriever_value
    by (simp only: ebind_Inr prod.case mismatched_window_value)
  then show ?thesis
    by (simp add: LCMV_solve_def ev)
qed

theorem nb_steering_omitted_mismatch_witness:
  "shape_preserving adjugate_inv \<and> isl mismatched_solve \<and> mismatched_solve = Inl ValueError"
proof -
  let ?r = "\<lparr>r_data_window_params = two_samples, r_D = NDArray 1 2 [[1, - 1]],
           r_A_0 = NDArray 1 1 [[1]], r_Delta = NDArray 1 1 [[- 1]],
           r_noise = NDArray 1 2 [[1, - 1]], r_nb_filters = 2, r_nb_steering = 2,
           r_B = NDArray 1 1 [[1]], r_H = NDArray 2 2 [[1, - 1], [1, - 1]], r_weights = [0]\<rparr>"
  let ?inputs = "\<lparr>fused_signals = [NDArray 1 2 [[1, - 1]]], fused_constants = [NDArray 1 1 [[1]]],
          global_parameters = [NDArray 2 2 [[1, - 1], [1, - 1]]]\<rparr>"
  have init: "LCMVDataRetriever_init two_samples 1 1 1 alternating_rng 2 None 1 1 1 1
      = Inr (?r, alternating_rng\<lparr>drawn := 10\<rparr>)"
    using mismatched_retriever_value unfolding mismatched_retriever_def .
  have "\<exists>e. LCMV_solve adjugate_inv \<lparr>p_nb_filters = 2, p_X_star = None\<rparr> ?inputs False = Inl e
      \<and> (e = ValueError \<or> (\<exists>A. adjugate_inv A = Inl e))"
    using nb_steering_omitted_mismatch [OF init, of 0 ?inputs adjugate_inv
        "\<lparr>p_nb_filters = 2, p_X_star = None\<rparr>" False]
      mismatched_window_value shape_preserving_adjugate_inv
    by simp
  then obtain e where
    e: "LCMV_solve adjugate_inv \<lparr>p_nb_filters = 2, p_X_star = None\<rparr> ?inputs False = Inl e"
    by blast
  have ms: "mismatched_solve
      = LCMV_solve adjugate_inv \<lparr>p_nb_filters = 2, p_X_star = None\<rparr> ?inputs False"
    unfolding mismatched_solve_def mismatched_retriever_value
    by (simp only: ebind_Inr prod.case mismatched_window_value)
  have "mismatched_solve = Inl e"
    using ms e by (rule trans)
  then have "isl mismatched_solve"
    by (metis sum.disc(1))
  then show ?thesis
    using shape_preserving_adjugate_inv mismatched_solve_value by blast
qed

end
